theory Spec2Isabelle
  imports Complex_Main
begin

section \<open>JavaScript values used by server.js\<close>

text \<open>
  A JavaScript string is a sequence of UTF-16 code units; a code unit is modelled as a
  natural number. \<open>js\<close> embeds an ASCII literal of the source.
\<close>

type_synonym jsstring = "nat list"

definition js :: "string \<Rightarrow> jsstring" where
  "js s = map of_char s"

text \<open>
  The white space of \<open>String.prototype.trim\<close> (and of the \<open>StrWhiteSpaceChar\<close> of
  \<open>Number\<close>): WhiteSpace and LineTerminator of ECMAScript.
\<close>

definition is_ws :: "nat \<Rightarrow> bool" where
  "is_ws c \<longleftrightarrow>
     c = 0x09 \<or> c = 0x0A \<or> c = 0x0B \<or> c = 0x0C \<or> c = 0x0D \<or> c = 0x20 \<or> c = 0xA0 \<or>
     c = 0x1680 \<or> (0x2000 \<le> c \<and> c \<le> 0x200A) \<or> c = 0x2028 \<or> c = 0x2029 \<or>
     c = 0x202F \<or> c = 0x205F \<or> c = 0x3000 \<or> c = 0xFEFF"

definition trim :: "jsstring \<Rightarrow> jsstring" where
  "trim s = rev (dropWhile is_ws (rev (dropWhile is_ws s)))"

text \<open>\<open>\d\<close> of a regular expression without the \<open>u\<close> flag: the ten ASCII digits.\<close>

definition is_digit :: "nat \<Rightarrow> bool" where
  "is_digit c \<longleftrightarrow> 0x30 \<le> c \<and> c \<le> 0x39"

text \<open>\<open>text.replace(/\D/g, "")\<close>: every code unit that is not a digit is removed.\<close>

definition strip_non_digits :: "jsstring \<Rightarrow> jsstring" where
  "strip_non_digits s = filter is_digit s"

text \<open>
  The \<open>i\<close> flag without the \<open>u\<close> flag: two code units match when their canonical
  forms agree. For the ASCII letters of the patterns of server.js the canonical form is
  the upper-case ASCII letter, and a code unit from 128 on is never mapped below 128, so
  only the two ASCII cases of a letter match it.
\<close>

definition canonicalize :: "nat \<Rightarrow> nat" where
  "canonicalize c = (if 0x61 \<le> c \<and> c \<le> 0x7A then c - 0x20 else c)"

text \<open>\<open>/^word$/i.test(text)\<close>: without the \<open>m\<close> flag \<open>$\<close> is the end of the input.\<close>

definition test_exact_i :: "string \<Rightarrow> jsstring \<Rightarrow> bool" where
  "test_exact_i word text \<longleftrightarrow> map canonicalize text = map canonicalize (js word)"

text \<open>\<open>/^word/i.test(text)\<close>: the pattern is anchored at the start only.\<close>

definition test_prefix_i :: "string \<Rightarrow> jsstring \<Rightarrow> bool" where
  "test_prefix_i word text \<longleftrightarrow>
     map canonicalize (take (length word) text) = map canonicalize (js word)"

text \<open>
  The Number type: \<open>Fin q\<close> is the finite double whose value is the rational \<open>q\<close>
  (the two zeros are one value here: \<open>===\<close> does not tell them apart).
\<close>

datatype jsnum = NaN | PosInf | NegInf | Fin rat

text \<open>
  What a JSON payload or a parsed query string can hold in one field. \<open>JObj\<close> is any
  object or array, named by its identity.
\<close>

datatype jsval = JUndefined | JNull | JBool bool | JNum jsnum | JStr jsstring | JObj nat

fun truthy :: "jsval \<Rightarrow> bool" where
  "truthy JUndefined = False"
| "truthy JNull = False"
| "truthy (JBool b) = b"
| "truthy (JNum n) = (n \<noteq> NaN \<and> n \<noteq> Fin 0)"
| "truthy (JStr s) = (s \<noteq> [])"
| "truthy (JObj i) = True"

text \<open>
  An environment variable is a string or undefined. \<open>strict_eq_env v e\<close> is \<open>v === e\<close>
  for a value \<open>v\<close> and such a variable.
\<close>

fun strict_eq_env :: "jsval \<Rightarrow> jsstring option \<Rightarrow> bool" where
  "strict_eq_env JUndefined None = True"
| "strict_eq_env (JStr t) (Some s) = (t = s)"
| "strict_eq_env v e = False"

fun strict_eq_str :: "jsval \<Rightarrow> jsstring \<Rightarrow> bool" where
  "strict_eq_str (JStr t) s = (t = s)"
| "strict_eq_str v s = False"

section \<open>Number(text): string to number\<close>

text \<open>
  \<open>Number\<close> applied to a string is StringToNumber of ECMAScript: white space is
  stripped, an empty string is 0, and the rest must be one StrNumericLiteral (a decimal
  literal with optional sign, fraction and exponent, \<open>Infinity\<close>, or an unsigned binary,
  octal or hexadecimal integer literal); anything else is NaN. The mathematical value of
  the literal is rounded to the nearest double, ties to even (every digit of the literal
  counts, as in V8).
\<close>

fun bitlen :: "nat \<Rightarrow> nat" where
  "bitlen n = (if n = 0 then 0 else Suc (bitlen (n div 2)))"

declare bitlen.simps [simp del]

definition pow2 :: "int \<Rightarrow> rat" where
  "pow2 e = (if 0 \<le> e then 2 ^ nat e else 1 / 2 ^ nat (- e))"

definition pow10 :: "int \<Rightarrow> rat" where
  "pow10 e = (if 0 \<le> e then 10 ^ nat e else 1 / 10 ^ nat (- e))"

text \<open>The binary exponent of a positive rational \<open>a\<close>: \<open>2^e \<le> a < 2^(e+1)\<close>.\<close>

definition ilog2 :: "rat \<Rightarrow> int" where
  "ilog2 a =
     (let (n, d) = quotient_of a;
          k = int (bitlen (nat n)) - int (bitlen (nat d))
      in if pow2 k \<le> a then k else k - 1)"

definition round_half_even :: "rat \<Rightarrow> int" where
  "round_half_even x =
     (let f = \<lfloor>x\<rfloor>; r = x - of_int f
      in if r < 1 / 2 then f
         else if 1 / 2 < r then f + 1
         else if even f then f else f + 1)"

text \<open>
  Rounding to binary64: 53 significant bits, the least exponent -1022 (below it the
  spacing stays \<open>2^-1074\<close>), and a result of \<open>2^1024\<close> or more is an infinity.
\<close>

definition round_double :: "rat \<Rightarrow> jsnum" where
  "round_double q =
     (if q = 0 then Fin 0
      else
        let a = \<bar>q\<bar>;
            e = max (ilog2 a) (- 1022);
            u = pow2 (e - 52);
            r = of_int (round_half_even (a / u)) * u
        in if pow2 1024 \<le> r then (if q < 0 then NegInf else PosInf)
           else Fin (if q < 0 then - r else r))"

definition is_hex_digit :: "nat \<Rightarrow> bool" where
  "is_hex_digit c \<longleftrightarrow> is_digit c \<or> (0x61 \<le> c \<and> c \<le> 0x66) \<or> (0x41 \<le> c \<and> c \<le> 0x46)"

definition is_oct_digit :: "nat \<Rightarrow> bool" where
  "is_oct_digit c \<longleftrightarrow> 0x30 \<le> c \<and> c \<le> 0x37"

definition is_bin_digit :: "nat \<Rightarrow> bool" where
  "is_bin_digit c \<longleftrightarrow> c = 0x30 \<or> c = 0x31"

definition digit_value :: "nat \<Rightarrow> nat" where
  "digit_value c =
     (if is_digit c then c - 0x30
      else if 0x61 \<le> c \<and> c \<le> 0x66 then c - 0x57
      else c - 0x37)"

definition digits_value :: "nat \<Rightarrow> jsstring \<Rightarrow> nat" where
  "digits_value base ds = foldl (\<lambda>a c. base * a + digit_value c) 0 ds"

text \<open>NonDecimalIntegerLiteral: \<open>0x\<close>, \<open>0o\<close> or \<open>0b\<close> (either case) and at least one digit.\<close>

definition parse_non_decimal :: "jsstring \<Rightarrow> nat option" where
  "parse_non_decimal s =
     (case s of
        z # x # ds \<Rightarrow>
          if z = 0x30 \<and> ds \<noteq> [] then
            (if (x = 0x78 \<or> x = 0x58) \<and> list_all is_hex_digit ds then Some (digits_value 16 ds)
             else if (x = 0x6F \<or> x = 0x4F) \<and> list_all is_oct_digit ds then Some (digits_value 8 ds)
             else if (x = 0x62 \<or> x = 0x42) \<and> list_all is_bin_digit ds then Some (digits_value 2 ds)
             else None)
          else None
      | _ \<Rightarrow> None)"

definition parse_digits :: "jsstring \<Rightarrow> int option" where
  "parse_digits ds =
     (if ds \<noteq> [] \<and> list_all is_digit ds then Some (int (digits_value 10 ds)) else None)"

text \<open>An optional ExponentPart that must reach the end of the literal.\<close>

definition parse_exponent :: "jsstring \<Rightarrow> int option" where
  "parse_exponent r =
     (case r of
        [] \<Rightarrow> Some 0
      | c # ds \<Rightarrow>
          if c = 0x65 \<or> c = 0x45 then
            (case ds of
               [] \<Rightarrow> None
             | g # ds' \<Rightarrow>
                 if g = 0x2B then parse_digits ds'
                 else if g = 0x2D then map_option uminus (parse_digits ds')
                 else parse_digits ds)
          else None)"

text \<open>
  StrUnsignedDecimalLiteral other than \<open>Infinity\<close>: digits, an optional point and
  digits, an optional exponent; at least one digit before or after the point.
\<close>

definition parse_unsigned_decimal :: "jsstring \<Rightarrow> rat option" where
  "parse_unsigned_decimal s =
     (let ip = takeWhile is_digit s;
          r1 = dropWhile is_digit s;
          (fp, r2) = (case r1 of
                        [] \<Rightarrow> ([], r1)
                      | c # r \<Rightarrow> if c = 0x2E then (takeWhile is_digit r, dropWhile is_digit r)
                                 else ([], r1))
      in if ip = [] \<and> fp = [] then None
         else case parse_exponent r2 of
                None \<Rightarrow> None
              | Some e \<Rightarrow>
                  Some (of_nat (digits_value 10 (ip @ fp)) * pow10 (e - int (length fp))))"

definition parse_unsigned :: "bool \<Rightarrow> jsstring \<Rightarrow> jsnum" where
  "parse_unsigned neg s =
     (if s = js ''Infinity'' then (if neg then NegInf else PosInf)
      else case parse_unsigned_decimal s of
             None \<Rightarrow> NaN
           | Some q \<Rightarrow> round_double (if neg then - q else q))"

definition parse_decimal :: "jsstring \<Rightarrow> jsnum" where
  "parse_decimal s =
     (case s of
        [] \<Rightarrow> NaN
      | c # r \<Rightarrow>
          if c = 0x2B then parse_unsigned False r
          else if c = 0x2D then parse_unsigned True r
          else parse_unsigned False s)"

definition Number :: "jsstring \<Rightarrow> jsnum" where
  "Number s =
     (let t = trim s
      in if t = [] then Fin 0
         else case parse_non_decimal t of
                Some n \<Rightarrow> round_double (of_nat n)
              | None \<Rightarrow> parse_decimal t)"

section \<open>Subscription handshake: GET /webhook\<close>

text \<open>
  The query of the request, as Express parses it: each of the three parameters is
  absent (\<open>JUndefined\<close>), a string, or an array or object.
\<close>

record verify_query =
  hub_mode :: jsval
  hub_verify_token :: jsval
  hub_challenge :: jsval

datatype verify_response = Echo jsval | Status nat

text \<open>
  Lines 39-47, and lines 364-380 of the second server.js, whose \<open>try\<close> block holds the
  same test (nothing in it throws). \<open>META_VERIFY_TOKEN\<close> is the environment variable.
\<close>

definition get_webhook :: "jsstring option \<Rightarrow> verify_query \<Rightarrow> verify_response" where
  "get_webhook META_VERIFY_TOKEN q =
     (if strict_eq_str (hub_mode q) (js ''subscribe'')
         \<and> strict_eq_env (hub_verify_token q) META_VERIFY_TOKEN
      then Echo (hub_challenge q)
      else Status 403)"

section \<open>The booking dialogue: POST /webhook of the first server.js\<close>

datatype step = idle | get_name | get_phone | offer_slots | confirm

text \<open>The \<open>data\<close> object of a session: a field that was never assigned is \<open>None\<close>.\<close>

record sdata =
  name :: "jsstring option"
  phone :: "jsstring option"
  slot :: "jsstring option"

record session =
  step :: step
  data :: sdata

definition empty_data :: sdata where
  "empty_data = \<lparr>name = None, phone = None, slot = None\<rparr>"

text \<open>\<open>{ step: "idle", data: {} }\<close>\<close>

definition fresh_session :: session where
  "fresh_session = \<lparr>step = idle, data = empty_data\<rparr>"

record slot_entry =
  slot_id :: nat
  slot_when :: jsstring

definition SLOTS :: "slot_entry list" where
  "SLOTS =
     [\<lparr>slot_id = 1, slot_when = js ''Hoje 16:00''\<rparr>,
      \<lparr>slot_id = 2, slot_when = js ''Amanh'' @ [0xE3] @ js '' 10:30''\<rparr>,
      \<lparr>slot_id = 3, slot_when = js ''Amanh'' @ [0xE3] @ js '' 15:00''\<rparr>]"

text \<open>A template literal renders an unassigned field as \<open>undefined\<close>.\<close>

definition template :: "jsstring option \<Rightarrow> jsstring" where
  "template v = (case v of None \<Rightarrow> js ''undefined'' | Some s \<Rightarrow> s)"

text \<open>\<open>session.data?.name || from\<close>: an unassigned or empty name gives the sender.\<close>

definition name_or :: "jsstring option \<Rightarrow> jsstring \<Rightarrow> jsstring" where
  "name_or v from = (case v of None \<Rightarrow> from | Some s \<Rightarrow> if s = [] then from else s)"

text \<open>The decimal digits of a slot id in a template literal.\<close>

fun nat_to_string :: "nat \<Rightarrow> jsstring" where
  "nat_to_string n =
     (if n < 10 then [0x30 + n] else nat_to_string (n div 10) @ [0x30 + n mod 10])"

declare nat_to_string.simps [simp del]

fun join :: "jsstring \<Rightarrow> jsstring list \<Rightarrow> jsstring" where
  "join sep [] = []"
| "join sep [x] = x"
| "join sep (x # y # ys) = x @ sep @ join sep (y # ys)"

definition msg_cancelled :: jsstring where
  "msg_cancelled =
     js ''Sem problemas! Consulta cancelada. Se precisar, digite *agendar* novamente.''"

definition msg_cancel_alert :: "jsstring \<Rightarrow> jsstring" where
  "msg_cancel_alert who =
     [0x26A0, 0xFE0F] @ js '' Paciente '' @ who @ js '' cancelou a consulta.''"

definition msg_ask_name :: jsstring where
  "msg_ask_name =
     js ''Vamos agendar sua consulta '' @ [0xD83E, 0xDDB7, 0x0A] @ js ''Qual '' @ [0xE9]
       @ js '' o seu *nome completo*?''"

definition msg_ask_phone :: jsstring where
  "msg_ask_phone = js ''Pra continuar, me informe seu *telefone* (com DDD).''"

definition slot_list :: jsstring where
  "slot_list =
     join [0x0A] (map (\<lambda>s. nat_to_string (slot_id s) @ js '') '' @ slot_when s) SLOTS)"

definition msg_offer_slots :: "jsstring option \<Rightarrow> jsstring" where
  "msg_offer_slots nm =
     js ''Obrigado, '' @ template nm @ js ''! Temos estes hor'' @ [0xE1] @ js ''rios:''
       @ [0x0A] @ slot_list @ [0x0A, 0x0A] @ js ''Responda com *1*, *2* ou *3*.''"

definition msg_bad_slot :: jsstring where
  "msg_bad_slot =
     js ''N'' @ [0xE3] @ js ''o entendi. Responda *1*, *2* ou *3* para escolher um hor''
       @ [0xE1] @ js ''rio.''"

definition msg_confirm_prompt :: "jsstring \<Rightarrow> jsstring" where
  "msg_confirm_prompt w =
     js ''Confirmar consulta para *'' @ w @ js ''*?'' @ [0x0A]
       @ js ''Responda *confirmo* ou *cancelar*.''"

definition msg_confirmed :: "jsstring option \<Rightarrow> jsstring" where
  "msg_confirmed sl =
     [0x2705] @ js '' Consulta confirmada para *'' @ template sl @ js ''*.'' @ [0x0A]
       @ js ''At'' @ [0xE9] @ js '' l'' @ [0xE1] @ js ''!''"

definition msg_booking_notice :: "sdata \<Rightarrow> jsstring" where
  "msg_booking_notice d =
     [0xD83D, 0xDCEC] @ js '' Nova consulta confirmada:'' @ [0x0A]
       @ js ''Paciente: '' @ template (name d) @ [0x0A]
       @ js ''Telefone: '' @ template (phone d) @ [0x0A]
       @ js ''Hor'' @ [0xE1] @ js ''rio: '' @ template (slot d)"

definition msg_fallback :: jsstring where
  "msg_fallback =
     js ''N'' @ [0xE3] @ js ''o entendi. Digite *agendar* para come'' @ [0xE7]
       @ js ''ar ou *cancelar* para encerrar.''"

text \<open>\<open>if (DENTIST)\<close>: the variable is set and not empty.\<close>

definition configured :: "jsstring option \<Rightarrow> jsstring option" where
  "configured v = (case v of None \<Rightarrow> None | Some d \<Rightarrow> if d = [] then None else Some d)"

text \<open>
  Lines 66-128: the rules of the dialogue in the order of the source, for the session of
  the sender \<open>from\<close> and the trimmed \<open>text\<close>. The result is the session after the turn
  and the calls of \<open>sendText\<close> (recipient and body) in the order they are made.
\<close>

definition handle_message ::
  "jsstring option \<Rightarrow> jsstring \<Rightarrow> session \<Rightarrow> jsstring \<Rightarrow> session \<times> (jsstring \<times> jsstring) list"
where
  "handle_message DENTIST from session text =
     (if test_exact_i ''cancelar'' text then
        (fresh_session,
         (from, msg_cancelled) #
           (case configured DENTIST of
              None \<Rightarrow> []
            | Some d \<Rightarrow> [(d, msg_cancel_alert (name_or (name (data session)) from))]))
      else if test_exact_i ''agendar'' text \<or> step session = idle then
        (session\<lparr>step := get_name\<rparr>, [(from, msg_ask_name)])
      else if step session = get_name then
        (session\<lparr>step := get_phone, data := (data session)\<lparr>name := Some text\<rparr>\<rparr>,
         [(from, msg_ask_phone)])
      else if step session = get_phone then
        (session\<lparr>step := offer_slots,
                 data := (data session)\<lparr>phone := Some (strip_non_digits text)\<rparr>\<rparr>,
         [(from, msg_offer_slots (name (data session)))])
      else if step session = offer_slots then
        (case find (\<lambda>s. Fin (of_nat (slot_id s)) = Number text) SLOTS of
           None \<Rightarrow> (session, [(from, msg_bad_slot)])
         | Some sl \<Rightarrow>
             (session\<lparr>step := confirm, data := (data session)\<lparr>slot := Some (slot_when sl)\<rparr>\<rparr>,
              [(from, msg_confirm_prompt (slot_when sl))]))
      else if step session = confirm \<and> test_exact_i ''confirmo'' text then
        (fresh_session,
         (from, msg_confirmed (slot (data session))) #
           (case configured DENTIST of
              None \<Rightarrow> []
            | Some d \<Rightarrow> [(d, msg_booking_notice (data session))]))
      else (session, [(from, msg_fallback)]))"

text \<open>
  \<open>sendText\<close> (lines 16-27) catches every failure of the delivery request and only logs
  it, so a call returns in both cases. \<open>deliver to body\<close> tells whether the request
  succeeds; the record of a call keeps the outcome that is logged.
\<close>

record send_attempt =
  sent_to :: jsstring
  sent_body :: jsstring
  delivered :: bool

definition sendText :: "(jsstring \<Rightarrow> jsstring \<Rightarrow> bool) \<Rightarrow> jsstring \<times> jsstring \<Rightarrow> send_attempt" where
  "sendText deliver m =
     \<lparr>sent_to = fst m, sent_body = snd m, delivered = deliver (fst m) (snd m)\<rparr>"

text \<open>
  The first message of the payload (\<open>entry[0].changes[0].value.messages[0]\<close>): its
  sender and \<open>text?.body\<close>, which is \<open>JUndefined\<close> when the message has no text.
\<close>

record message =
  msg_from :: jsstring
  msg_body :: jsval

text \<open>
  Line 57, \<open>(msg.text?.body || "").trim()\<close>: a falsy body is replaced by the empty
  string; a truthy body that is not a string has no \<open>trim\<close> method and the call throws
  a TypeError (\<open>None\<close>).
\<close>

definition text_of_body :: "jsval \<Rightarrow> jsstring option" where
  "text_of_body b =
     (if \<not> truthy b then Some (trim [])
      else case b of JStr s \<Rightarrow> Some (trim s) | _ \<Rightarrow> None)"

type_synonym sessions = "jsstring \<rightharpoonup> session"

text \<open>
  Lines 50-133. The result is the session map, the calls of \<open>sendText\<close> and the HTTP
  status of the response. An exception (here: of line 57) reaches the \<open>catch\<close> of
  line 129, which answers 200 as well.
\<close>

definition post_webhook_v1 ::
  "jsstring option \<Rightarrow> (jsstring \<Rightarrow> jsstring \<Rightarrow> bool) \<Rightarrow> sessions \<Rightarrow> message option
     \<Rightarrow> sessions \<times> send_attempt list \<times> nat"
where
  "post_webhook_v1 DENTIST deliver sessions req =
     (case req of
        None \<Rightarrow> (sessions, [], 200)
      | Some msg \<Rightarrow>
          (case text_of_body (msg_body msg) of
             None \<Rightarrow> (sessions, [], 200)
           | Some text \<Rightarrow>
               let from = msg_from msg;
                   session = (case sessions from of None \<Rightarrow> fresh_session | Some s \<Rightarrow> s);
                   (session', sends) = handle_message DENTIST from session text
               in (sessions(from \<mapsto> session'), map (sendText deliver) sends, 200)))"

section \<open>The second server.js: POST /webhook and GET /google/callback\<close>

text \<open>
  Line 397, \<open>msg.text?.body?.trim() || ""\<close>: only an undefined or null body is skipped
  by the optional chain; any other value that is not a string has no \<open>trim\<close> method and
  the call throws a TypeError (\<open>None\<close>).
\<close>

definition text_of_body_v2 :: "jsval \<Rightarrow> jsstring option" where
  "text_of_body_v2 b =
     (case b of
        JUndefined \<Rightarrow> Some []
      | JNull \<Rightarrow> Some []
      | JStr s \<Rightarrow> Some (trim s)
      | _ \<Rightarrow> None)"

definition msg_connect :: "jsstring \<Rightarrow> jsstring" where
  "msg_connect url = js ''Para conectar seu Google Agenda, acesse: '' @ url"

definition msg_schedule_v2 :: jsstring where
  "msg_schedule_v2 =
     [0xD3] @ js ''timo! Me envie: nome, telefone e unidade/endere'' @ [0xE7] @ js ''o. ''
       @ [0xD83D, 0xDE03]"

definition msg_default_v2 :: jsstring where
  "msg_default_v2 =
     js ''Ol'' @ [0xE1] @ js ''! Sou a secret'' @ [0xE1] @ js ''ria virtual ''
       @ [0xD83E, 0xDDB7] @ js '' Posso agendar, confirmar ou cancelar consultas.''
       @ [0x0A, 0x0A] @ js ''Dicas:'' @ [0x0A, 0x2022] @ js '' Envie '' @ [0x27]
       @ js ''agendar'' @ [0x27] @ js '' para come'' @ [0xE7] @ js ''ar o atendimento.''
       @ [0x0A, 0x2022] @ js '' Envie '' @ [0x27] @ js ''conectar google'' @ [0x27]
       @ js '' para vincular seu Google Agenda.''"

text \<open>
  Lines 385-433. There is no session here. \<open>auth_url\<close> is the text of the URL object
  built at lines 403-404 from the protocol and the host of the request, \<open>None\<close> when
  the \<open>URL\<close> constructor throws. Every exception reaches the \<open>catch\<close> of line 427,
  which answers 500.
\<close>

definition post_webhook_v2 ::
  "(jsstring \<Rightarrow> jsstring \<Rightarrow> bool) \<Rightarrow> jsstring option \<Rightarrow> message option
     \<Rightarrow> send_attempt list \<times> nat"
where
  "post_webhook_v2 deliver auth_url req =
     (case req of
        None \<Rightarrow> ([], 200)
      | Some msg \<Rightarrow>
          (case text_of_body_v2 (msg_body msg) of
             None \<Rightarrow> ([], 500)
           | Some text \<Rightarrow>
               if test_prefix_i ''conectar'' text \<or> test_prefix_i ''conectar google'' text
                  \<or> test_prefix_i ''link google'' text then
                 (case auth_url of
                    None \<Rightarrow> ([], 500)
                  | Some url \<Rightarrow> ([sendText deliver (msg_from msg, msg_connect url)], 200))
               else if test_prefix_i ''agendar'' text then
                 ([sendText deliver (msg_from msg, msg_schedule_v2)], 200)
               else ([sendText deliver (msg_from msg, msg_default_v2)], 200)))"

text \<open>
  \<open>googleTokensStore\<close>: a Map from the dentist id to the tokens of the last exchange.
  The tokens are kept as the provider returns them (type \<open>'t\<close>). A Map tells objects
  and arrays apart by identity and every other key by value.
\<close>

type_synonym 't token_store = "jsval \<rightharpoonup> 't"

fun is_object :: "jsval \<Rightarrow> bool" where
  "is_object (JObj i) = True"
| "is_object v = False"

text \<open>
  Lines 316-324: the dentist id is \<open>"default"\<close> unless \<open>state\<close> is truthy,
  \<open>JSON.parse(state)\<close> returns, and the \<open>dentistId\<close> of the parsed value is truthy.
  \<open>parsed_dentistId state\<close> is \<open>JSON.parse(state)?.dentistId\<close>, \<open>None\<close> when the
  parser throws. The parser builds its result anew at every call, so a \<open>dentistId\<close>
  that is an object or array is an object no earlier call has returned: it gets the
  identity \<open>made\<close>, the number of such objects made before.
\<close>

definition dentist_id :: "(jsval \<Rightarrow> jsval option) \<Rightarrow> nat \<Rightarrow> jsval \<Rightarrow> jsval" where
  "dentist_id parsed_dentistId made state =
     (if truthy state then
        (case parsed_dentistId state of
           None \<Rightarrow> JStr (js ''default'')
         | Some d \<Rightarrow>
             if truthy d then (if is_object d then JObj made else d)
             else JStr (js ''default''))
      else JStr (js ''default''))"

text \<open>The number of such objects after the lines 316-324.\<close>

definition objects_made :: "(jsval \<Rightarrow> jsval option) \<Rightarrow> nat \<Rightarrow> jsval \<Rightarrow> nat" where
  "objects_made parsed_dentistId made state =
     (if truthy state then
        (case parsed_dentistId state of
           None \<Rightarrow> made
         | Some d \<Rightarrow> if is_object d then Suc made else made)
      else made)"

text \<open>
  Lines 309-359. The state is the store and the number of objects that \<open>JSON.parse\<close>
  has returned as a \<open>dentistId\<close>. \<open>getToken code\<close> is the exchange with the provider
  (\<open>None\<close> when it rejects) and \<open>calendar_list tokens\<close> tells whether the calendar
  listing and the two log lines after it complete. The store is written between the two.
\<close>

definition google_callback_v2 ::
  "(jsval \<Rightarrow> jsval option) \<Rightarrow> (jsval \<Rightarrow> 't option) \<Rightarrow> ('t \<Rightarrow> bool)
     \<Rightarrow> 't token_store \<times> nat \<Rightarrow> jsval \<Rightarrow> jsval \<Rightarrow> ('t token_store \<times> nat) \<times> nat"
where
  "google_callback_v2 parsed_dentistId getToken calendar_list server code state =
     (if \<not> truthy code then (server, 400)
      else
        let store = fst server;
            dentistId = dentist_id parsed_dentistId (snd server) state;
            made = objects_made parsed_dentistId (snd server) state
        in case getToken code of
             None \<Rightarrow> ((store, made), 500)
           | Some tokens \<Rightarrow>
               let store' = store(dentistId \<mapsto> tokens)
               in if calendar_list tokens then ((store', made), 200) else ((store', made), 500))"

text \<open>
  Lines 177-190 of the first server.js: the exchange is made and its tokens are dropped
  (line 182 leaves the saving as a TODO). No statement of this file writes a credential,
  so whatever records the process holds are the same after the callback.
\<close>

definition google_callback_v1 ::
  "(jsval \<Rightarrow> 't option) \<Rightarrow> 't token_store \<Rightarrow> jsval \<Rightarrow> 't token_store \<times> nat"
where
  "google_callback_v1 getToken store code =
     (case getToken code of None \<Rightarrow> (store, 500) | Some tokens \<Rightarrow> (store, 200))"

text \<open>Running the dialogue of one sender over a sequence of trimmed texts.\<close>

definition turn :: "jsstring option \<Rightarrow> jsstring \<Rightarrow> session \<Rightarrow> jsstring \<Rightarrow> session" where
  "turn DENTIST from session text = fst (handle_message DENTIST from session text)"

definition run :: "jsstring option \<Rightarrow> jsstring \<Rightarrow> jsstring list \<Rightarrow> session" where
  "run DENTIST from texts = foldl (turn DENTIST from) fresh_session texts"

text \<open>
  The invariant that the specification states for a session (its data model): a phone
  number only at a step after \<open>get_phone\<close>, a slot only at the step after
  \<open>offer_slots\<close>, and no data at all at \<open>idle\<close>.
\<close>

definition step_gating_invariant :: "session \<Rightarrow> bool" where
  "step_gating_invariant s \<longleftrightarrow>
     (phone (data s) \<noteq> None \<longrightarrow> step s = offer_slots \<or> step s = confirm) \<and>
     (slot (data s) \<noteq> None \<longrightarrow> step s = confirm) \<and>
     (step s = idle \<longrightarrow> data s = empty_data)"

text \<open>
  The matching that the specification states for a command: the text equals the
  lower-case command word up to the case of each letter, that is, every code unit is the
  letter of the word or its upper-case form. It is compared with \<open>test_exact_i\<close>, the
  test of the source, in \<open>test_exact_i_lower\<close>.
\<close>

definition equals_ignoring_case :: "string \<Rightarrow> jsstring \<Rightarrow> bool" where
  "equals_ignoring_case word text \<longleftrightarrow>
     list_all2 (\<lambda>p c. c = of_char p \<or> c + 0x20 = of_char p) word text"

section \<open>Basic facts\<close>

lemma trim_Nil: "trim [] = []"
  by (simp add: trim_def)

lemma text_of_body_JStr: "text_of_body (JStr b) = Some (trim b)"
  by (simp add: text_of_body_def trim_Nil)

lemma get_webhook_configured:
  "get_webhook (Some secret) q = Echo c \<longleftrightarrow>
     hub_mode q = JStr (js ''subscribe'') \<and> hub_verify_token q = JStr secret \<and> hub_challenge q = c"
  by (cases "hub_mode q"; cases "hub_verify_token q") (auto simp: get_webhook_def)

lemma google_callback_v1_status:
  "snd (google_callback_v1 getToken store code) = (if getToken code = None then 500 else 200)"
  by (simp add: google_callback_v1_def split: option.split)

lemma object_ids_are_not_overwritten:
  assumes "\<forall>n. JObj n \<in> dom store \<longrightarrow> n < made"
    and "truthy code" "getToken code = Some tokens" "truthy code'" "getToken' code' = Some tokens'"
    and "truthy state" "parsed_dentistId state = Some d" "is_object d"
  shows "fst (fst (google_callback_v2 parsed_dentistId getToken' calendar_list'
               (fst (google_callback_v2 parsed_dentistId getToken calendar_list (store, made)
                  code state))
               code' state))
         = store(JObj made \<mapsto> tokens, JObj (Suc made) \<mapsto> tokens')"
  using assms
  by (cases d) (simp_all add: google_callback_v2_def dentist_id_def objects_made_def Let_def)

lemma get_webhook_cases:
  "get_webhook secret q = Echo (hub_challenge q) \<or> get_webhook secret q = Status 403"
  by (simp add: get_webhook_def)

lemma canonicalize_lower:
  assumes "0x61 \<le> p" "p \<le> 0x7A"
  shows "canonicalize c = canonicalize p \<longleftrightarrow> c = p \<or> c + 0x20 = p"
  using assms by (auto simp: canonicalize_def)

lemma test_exact_i_lower:
  assumes "\<forall>p \<in> set word. 0x61 \<le> (of_char p :: nat) \<and> (of_char p :: nat) \<le> 0x7A"
  shows "test_exact_i word text \<longleftrightarrow> equals_ignoring_case word text"
proof -
  have "test_exact_i word text \<longleftrightarrow>
          list_all2 (\<lambda>p c. canonicalize c = canonicalize (of_char p)) word text"
    unfolding test_exact_i_def js_def
    by (auto simp: list_all2_conv_all_nth list_eq_iff_nth_eq)
  also have "\<dots> \<longleftrightarrow> equals_ignoring_case word text"
    unfolding equals_ignoring_case_def using assms
    by (auto simp: list_all2_conv_all_nth canonicalize_lower)
  finally show ?thesis .
qed

lemma test_cancelar: "test_exact_i ''cancelar'' text \<longleftrightarrow> equals_ignoring_case ''cancelar'' text"
  by (rule test_exact_i_lower) simp

lemma test_agendar: "test_exact_i ''agendar'' text \<longleftrightarrow> equals_ignoring_case ''agendar'' text"
  by (rule test_exact_i_lower) simp

lemma test_confirmo: "test_exact_i ''confirmo'' text \<longleftrightarrow> equals_ignoring_case ''confirmo'' text"
  by (rule test_exact_i_lower) simp

lemma test_exact_i_length: "test_exact_i word text \<Longrightarrow> length text = length word"
  unfolding test_exact_i_def js_def by (metis length_map)

lemma cancelar_not_agendar: "test_exact_i ''cancelar'' text \<Longrightarrow> \<not> test_exact_i ''agendar'' text"
  by (auto dest!: test_exact_i_length)

lemma filter_dropWhile:
  assumes "\<And>x. Q x \<Longrightarrow> \<not> P x"
  shows "filter P (dropWhile Q xs) = filter P xs"
  using assms by (induction xs) auto

lemma is_ws_not_digit: "is_ws c \<Longrightarrow> \<not> is_digit c"
  by (auto simp: is_ws_def is_digit_def)

lemma strip_non_digits_trim: "strip_non_digits (trim b) = strip_non_digits b"
proof -
  have "filter is_digit (rev (dropWhile is_ws (rev (dropWhile is_ws b))))
        = rev (filter is_digit (dropWhile is_ws (rev (dropWhile is_ws b))))"
    by (simp add: rev_filter)
  also have "\<dots> = rev (filter is_digit (rev (dropWhile is_ws b)))"
    by (simp add: filter_dropWhile is_ws_not_digit)
  also have "\<dots> = filter is_digit (dropWhile is_ws b)"
    by (simp add: rev_filter)
  also have "\<dots> = filter is_digit b"
    by (simp add: filter_dropWhile is_ws_not_digit)
  finally show ?thesis by (simp add: strip_non_digits_def trim_def)
qed

lemma equals_cancelar_not_agendar:
  "equals_ignoring_case ''cancelar'' text \<Longrightarrow> \<not> equals_ignoring_case ''agendar'' text"
  using cancelar_not_agendar by (simp add: test_cancelar test_agendar)

lemma turn_idle_empty:
  assumes "step s = idle \<longrightarrow> data s = empty_data"
  shows "step (turn DENTIST from s text) = idle \<longrightarrow> data (turn DENTIST from s text) = empty_data"
  using assms
  by (auto simp: turn_def handle_message_def fresh_session_def split: option.splits)

lemma foldl_turn_idle_empty:
  assumes "step s = idle \<longrightarrow> data s = empty_data"
  shows "step (foldl (turn DENTIST from) s texts) = idle
         \<longrightarrow> data (foldl (turn DENTIST from) s texts) = empty_data"
  using assms
proof (induction texts arbitrary: s)
  case Nil
  then show ?case by simp
next
  case (Cons t ts)
  show ?case
    unfolding foldl_Cons
    by (rule Cons.IH) (rule turn_idle_empty [OF Cons.prems])
qed

lemma turn_preserves_gating:
  assumes "step_gating_invariant s"
    and "\<not> (test_exact_i ''agendar'' text \<and> (step s = offer_slots \<or> step s = confirm))"
  shows "step_gating_invariant (turn DENTIST from s text)"
  using assms
  by (cases "step s")
    (auto simp: turn_def handle_message_def step_gating_invariant_def fresh_session_def
      empty_data_def split: option.splits)

subsection \<open>The rounding of Number: the binary exponent and the nearest double\<close>

lemma bitlen_bounds: "0 < n \<Longrightarrow> 2 ^ (bitlen n - 1) \<le> n \<and> n < 2 ^ bitlen n"
proof (induction n rule: bitlen.induct)
  case (1 n)
  show ?case
  proof (cases "n div 2 = 0")
    case True
    with "1.prems" have "n = 1" by auto
    then show ?thesis
      by (simp add: bitlen.simps [of "Suc 0"] bitlen.simps [of 0])
  next
    case False
    then have pos: "0 < n div 2" by simp
    from "1.prems" have n0: "n \<noteq> 0" by simp
    have ih: "2 ^ (bitlen (n div 2) - 1) \<le> n div 2 \<and> n div 2 < 2 ^ bitlen (n div 2)"
      using "1.IH" [OF n0 pos] .
    have b: "bitlen n = Suc (bitlen (n div 2))"
      using n0 by (simp add: bitlen.simps [of n])
    have bp: "0 < bitlen (n div 2)"
      using pos by (simp add: bitlen.simps [of "n div 2"])
    then obtain k where k: "bitlen (n div 2) = Suc k"
      by (cases "bitlen (n div 2)") auto
    from ih have "2 ^ k \<le> n div 2" "n div 2 < 2 ^ Suc k"
      by (simp_all add: k)
    then have "2 ^ Suc k \<le> n" "n < 2 ^ Suc (Suc k)"
      by auto
    then show ?thesis
      by (simp add: b k)
  qed
qed

lemma pow2_power_int: "pow2 e = power_int 2 e"
  by (simp add: pow2_def power_int_def inverse_eq_divide power_one_over)

lemma bitlen_pos: "0 < n \<Longrightarrow> 0 < bitlen n"
  by (simp add: bitlen.simps [of n])

lemma ilog2_bounds:
  assumes "0 < a"
  shows "pow2 (ilog2 a) \<le> a \<and> a < pow2 (ilog2 a + 1)"
proof -
  obtain n d where q: "quotient_of a = (n, d)"
    by (cases "quotient_of a")
  have d: "0 < d"
    using q by (rule quotient_of_denom_pos)
  have a: "a = of_int n / of_int d"
    using q by (rule quotient_of_div)
  have n: "0 < n"
    using assms d unfolding a by (simp add: zero_less_divide_iff)
  define nn dd where "nn = nat n" and "dd = nat d"
  have nn: "0 < nn" and dd: "0 < dd"
    using n d by (simp_all add: nn_def dd_def)
  have a': "a = of_nat nn / of_nat dd"
    using n d unfolding a nn_def dd_def by simp
  define bn bd where "bn = bitlen nn" and "bd = bitlen dd"
  have bn: "0 < bn" and bd: "0 < bd"
    using nn dd by (simp_all add: bn_def bd_def bitlen_pos)
  have "2 ^ (bn - 1) \<le> nn" "nn < 2 ^ bn" "2 ^ (bd - 1) \<le> dd" "dd < 2 ^ bd"
    using bitlen_bounds [OF nn] bitlen_bounds [OF dd] by (simp_all add: bn_def bd_def)
  then have r: "(2::rat) ^ (bn - 1) \<le> of_nat nn" "of_nat nn < (2::rat) ^ bn"
      "(2::rat) ^ (bd - 1) \<le> of_nat dd" "of_nat dd < (2::rat) ^ bd"
    by (metis of_nat_le_iff of_nat_less_iff of_nat_numeral of_nat_power)+
  have upper: "a < 2 ^ bn / 2 ^ (bd - 1)"
    unfolding a' using r(2,3) by (intro frac_less) simp_all
  have lower: "2 ^ (bn - 1) / 2 ^ bd < a"
    unfolding a' using r(1,4) dd by (intro frac_less2) simp_all
  have i1: "int bn - int (bd - 1) = int bn - int bd + 1"
    using bd by simp
  have "(2::rat) ^ bn / 2 ^ (bd - 1) = power_int 2 (int bn) / power_int 2 (int (bd - 1))"
    by (simp only: power_int_of_nat)
  also have "\<dots> = power_int 2 (int bn - int (bd - 1))"
    by (simp only: power_int_diff [of "2::rat", simplified])
  finally have e1: "(2::rat) ^ bn / 2 ^ (bd - 1) = pow2 (int bn - int bd + 1)"
    by (simp only: i1 pow2_power_int)
  have i2: "int (bn - 1) - int bd = int bn - int bd - 1"
    using bn by simp
  have "(2::rat) ^ (bn - 1) / 2 ^ bd = power_int 2 (int (bn - 1)) / power_int 2 (int bd)"
    by (simp only: power_int_of_nat)
  also have "\<dots> = power_int 2 (int (bn - 1) - int bd)"
    by (simp only: power_int_diff [of "2::rat", simplified])
  finally have e2: "(2::rat) ^ (bn - 1) / 2 ^ bd = pow2 (int bn - int bd - 1)"
    by (simp only: i2 pow2_power_int)
  have k: "ilog2 a = (if pow2 (int bn - int bd) \<le> a then int bn - int bd else int bn - int bd - 1)"
    by (simp add: ilog2_def q bn_def bd_def nn_def dd_def)
  show ?thesis
    using upper lower unfolding e1 e2 k by auto
qed


lemma round_half_even_close: "\<bar>of_int (round_half_even x) - x\<bar> \<le> 1 / 2"
proof -
  have "of_int \<lfloor>x\<rfloor> \<le> x" "x < of_int \<lfloor>x\<rfloor> + 1"
    by linarith+
  then show ?thesis
    by (auto simp: round_half_even_def Let_def abs_le_iff)
qed

lemma pow2_pos: "0 < pow2 e"
  by (simp add: pow2_def)

lemma pow2_half: "pow2 (e - 52) / 2 = pow2 (e - 53)"
proof -
  have "power_int (2::rat) (e - 53 + 1) = power_int 2 (e - 53) * power_int 2 1"
    by (rule power_int_add) simp
  moreover have "e - 53 + 1 = e - 52"
    by simp
  ultimately show ?thesis
    by (simp add: pow2_power_int)
qed

lemma round_double_nearest:
  assumes "q \<noteq> 0" and "round_double q = Fin r"
  shows "\<bar>r - q\<bar> \<le> pow2 (max (ilog2 \<bar>q\<bar>) (- 1022) - 53)"
proof -
  define e where "e = max (ilog2 \<bar>q\<bar>) (- 1022)"
  define u where "u = pow2 (e - 52)"
  define m where "m = round_half_even (\<bar>q\<bar> / u)"
  have u: "0 < u"
    by (simp add: u_def pow2_pos)
  have r: "r = (if q < 0 then - (of_int m * u) else of_int m * u)"
    using assms by (simp add: round_double_def Let_def e_def u_def m_def split: if_splits)
  have "\<bar>r - q\<bar> = \<bar>of_int m * u - \<bar>q\<bar>\<bar>"
  proof (cases "q < 0")
    case True
    then have "r - q = - (of_int m * u - \<bar>q\<bar>)"
      unfolding r by simp
    then show ?thesis
      by (simp only: abs_minus_cancel)
  next
    case False
    then show ?thesis
      unfolding r by simp
  qed
  also have "\<dots> = \<bar>of_int m - \<bar>q\<bar> / u\<bar> * u"
  proof -
    have "of_int m * u - \<bar>q\<bar> = (of_int m - \<bar>q\<bar> / u) * u"
      using u by (simp add: field_simps)
    then show ?thesis
      using u by (simp add: abs_mult)
  qed
  also have "\<dots> \<le> (1 / 2) * u"
    unfolding m_def using u round_half_even_close [of "\<bar>q\<bar> / u"]
    by (intro mult_right_mono) simp_all
  also have "\<dots> = pow2 (e - 53)"
    using pow2_half [of e] by (simp add: u_def)
  finally show ?thesis
    by (simp add: e_def)
qed

subsection \<open>Number on the command words and on the examples\<close>

lemma Number_letter_word:
  assumes "t = c # r @ [l]"
    and "\<not> is_ws c" "\<not> is_ws l" "\<not> is_digit c"
    and "c \<noteq> 0x2B" "c \<noteq> 0x2D" "c \<noteq> 0x2E" "c \<noteq> 0x49"
  shows "Number t = NaN"
proof -
  have tr: "trim t = t"
    using assms(1-3) by (simp add: trim_def)
  have nd: "parse_non_decimal t = None"
    using assms(1,4) by (auto simp: parse_non_decimal_def is_digit_def split: list.splits)
  have inf: "t \<noteq> js ''Infinity''"
    using assms(1,8) by (auto simp: js_def)
  have ud: "parse_unsigned_decimal t = None"
    using assms(1,4,7) by (simp add: parse_unsigned_decimal_def)
  show ?thesis
    using assms(1,5,6) tr nd inf ud
    by (simp add: Number_def parse_decimal_def parse_unsigned_def)
qed

lemma Number_agendar: "equals_ignoring_case ''agendar'' t \<Longrightarrow> Number t = NaN"
proof -
  assume "equals_ignoring_case ''agendar'' t"
  then obtain c r l where t: "t = c # r @ [l]"
    and c: "c = 0x61 \<or> c = 0x41" and l: "l = 0x72 \<or> l = 0x52"
    by (auto simp: equals_ignoring_case_def list_all2_Cons1)
  show ?thesis
    by (rule Number_letter_word [OF t]) (use c l in \<open>auto simp: is_ws_def is_digit_def\<close>)
qed

lemma Number_cancelar: "equals_ignoring_case ''cancelar'' t \<Longrightarrow> Number t = NaN"
proof -
  assume "equals_ignoring_case ''cancelar'' t"
  then obtain c r l where t: "t = c # r @ [l]"
    and c: "c = 0x63 \<or> c = 0x43" and l: "l = 0x72 \<or> l = 0x52"
    by (auto simp: equals_ignoring_case_def list_all2_Cons1)
  show ?thesis
    by (rule Number_letter_word [OF t]) (use c l in \<open>auto simp: is_ws_def is_digit_def\<close>)
qed

lemma find_slot:
  assumes "sl \<in> set SLOTS"
  shows "find (\<lambda>s. Fin (of_nat (slot_id s)) = Fin (of_nat (slot_id sl))) SLOTS = Some sl"
  using assms by (auto simp: SLOTS_def)

lemma bitlen_1: "bitlen (Suc 0) = 1"
  by (simp add: bitlen.simps [of "Suc 0"] bitlen.simps [of 0])

lemma bitlen_2: "bitlen 2 = 2"
  by (simp add: bitlen.simps [of 2] bitlen_1)

lemma round_double_2: "round_double 2 = Fin 2"
  by (simp add: round_double_def ilog2_def bitlen_1 bitlen_2 pow2_def round_half_even_def)

lemma Number_2_0: "Number (js ''2.0'') = Fin 2"
  by (simp add: Number_def trim_def js_def is_ws_def parse_non_decimal_def parse_decimal_def
      parse_unsigned_def parse_unsigned_decimal_def is_digit_def parse_exponent_def
      digits_value_def digit_value_def pow10_def round_double_2)

lemma Number_2e0: "Number (js ''2e0'') = Fin 2"
  by (simp add: Number_def trim_def js_def is_ws_def parse_non_decimal_def parse_decimal_def
      parse_unsigned_def parse_unsigned_decimal_def is_digit_def parse_exponent_def
      parse_digits_def digits_value_def digit_value_def pow10_def round_double_2)

lemma Number_0x2: "Number (js ''0x2'') = Fin 2"
  by (simp add: Number_def trim_def js_def is_ws_def parse_non_decimal_def is_hex_digit_def
      is_digit_def digits_value_def digit_value_def round_double_2)

lemma Number_empty: "Number [] = Fin 0"
  by (simp add: Number_def trim_def)

subsection \<open>The messages of the dialogue are told apart by their first code unit\<close>

lemma msg_heads:
  "hd msg_cancelled = 0x53" "hd (msg_cancel_alert w) = 0x26A0" "hd msg_ask_name = 0x56"
  "hd msg_ask_phone = 0x50" "hd (msg_offer_slots n) = 0x4F" "hd msg_bad_slot = 0x4E"
  "hd (msg_confirm_prompt w) = 0x43" "hd (msg_confirmed sl) = 0x2705"
  "hd (msg_booking_notice d) = 0xD83D" "hd msg_fallback = 0x4E"
  by (simp_all add: msg_cancelled_def msg_cancel_alert_def msg_ask_name_def msg_ask_phone_def
      msg_offer_slots_def msg_bad_slot_def msg_confirm_prompt_def msg_confirmed_def
      msg_booking_notice_def msg_fallback_def js_def)

lemma hd_neq: "hd a \<noteq> hd b \<Longrightarrow> a \<noteq> b"
  by auto

lemma msg_cancelled_distinct:
  "msg_cancelled \<noteq> msg_cancel_alert w" "msg_cancelled \<noteq> msg_ask_name"
  "msg_cancelled \<noteq> msg_ask_phone" "msg_cancelled \<noteq> msg_offer_slots n"
  "msg_cancelled \<noteq> msg_bad_slot" "msg_cancelled \<noteq> msg_confirm_prompt w"
  "msg_cancelled \<noteq> msg_confirmed sl" "msg_cancelled \<noteq> msg_booking_notice d"
  "msg_cancelled \<noteq> msg_fallback"
  by (rule hd_neq, simp add: msg_heads)+

lemma msg_ask_name_distinct:
  "msg_ask_name \<noteq> msg_cancelled" "msg_ask_name \<noteq> msg_cancel_alert w"
  "msg_ask_name \<noteq> msg_ask_phone" "msg_ask_name \<noteq> msg_offer_slots n"
  "msg_ask_name \<noteq> msg_bad_slot" "msg_ask_name \<noteq> msg_confirm_prompt w"
  "msg_ask_name \<noteq> msg_confirmed sl" "msg_ask_name \<noteq> msg_booking_notice d"
  "msg_ask_name \<noteq> msg_fallback"
  by (rule hd_neq, simp add: msg_heads)+

lemma msg_confirmed_distinct:
  "msg_confirmed sl \<noteq> msg_cancelled" "msg_confirmed sl \<noteq> msg_cancel_alert w"
  "msg_confirmed sl \<noteq> msg_ask_name" "msg_confirmed sl \<noteq> msg_ask_phone"
  "msg_confirmed sl \<noteq> msg_offer_slots n" "msg_confirmed sl \<noteq> msg_bad_slot"
  "msg_confirmed sl \<noteq> msg_confirm_prompt w" "msg_confirmed sl \<noteq> msg_booking_notice d"
  "msg_confirmed sl \<noteq> msg_fallback"
  by (rule hd_neq, simp add: msg_heads)+

lemma equals_confirmo_not_commands:
  assumes "equals_ignoring_case ''confirmo'' t"
  shows "\<not> equals_ignoring_case ''cancelar'' t" "\<not> equals_ignoring_case ''agendar'' t"
proof -
  from assms obtain c1 c2 r where t: "t = c1 # c2 # r" and c2: "c2 = 0x6F \<or> c2 = 0x4F"
    by (auto simp: equals_ignoring_case_def list_all2_Cons1)
  show "\<not> equals_ignoring_case ''cancelar'' t"
  proof
    assume "equals_ignoring_case ''cancelar'' t"
    then have "c2 = 0x61 \<or> c2 = 0x41"
      unfolding t by (simp add: equals_ignoring_case_def)
    with c2 show False by auto
  qed
  show "\<not> equals_ignoring_case ''agendar'' t"
  proof
    assume "equals_ignoring_case ''agendar'' t"
    then have "length t = 7"
      unfolding equals_ignoring_case_def by (auto dest: list_all2_lengthD)
    moreover have "length t = 8"
      using assms unfolding equals_ignoring_case_def by (auto dest: list_all2_lengthD)
    ultimately show False by simp
  qed
qed

lemma cancelled_sent_iff:
  "(from, msg_cancelled) \<in> set (snd (handle_message DENTIST from s t))
   \<longleftrightarrow> equals_ignoring_case ''cancelar'' t"
  by (auto simp: handle_message_def test_cancelar msg_cancelled_distinct
      split: option.splits)

lemma ask_name_sent_iff:
  assumes "step s \<noteq> idle"
  shows "(from, msg_ask_name) \<in> set (snd (handle_message DENTIST from s t))
         \<longleftrightarrow> equals_ignoring_case ''agendar'' t"
  using assms equals_cancelar_not_agendar [of t]
  by (auto simp: handle_message_def test_cancelar test_agendar msg_ask_name_distinct
      split: option.splits)

lemma confirmed_sent_iff:
  "(from, msg_confirmed (slot (data s))) \<in> set (snd (handle_message DENTIST from s t))
   \<longleftrightarrow> step s = confirm \<and> equals_ignoring_case ''confirmo'' t"
  using equals_confirmo_not_commands [of t]
  by (auto simp: handle_message_def test_cancelar test_agendar test_confirmo
      msg_confirmed_distinct split: option.splits)

lemma sendText_inj: "sendText deliver a = sendText deliver b \<longleftrightarrow> a = b"
  by (cases a; cases b) (auto simp: sendText_def)

lemma sendText_mem:
  "sendText deliver a \<in> set (map (sendText deliver) xs) \<longleftrightarrow> a \<in> set xs"
  by (auto simp: sendText_inj)

lemma post_webhook_v1_JStr:
  "post_webhook_v1 DENTIST deliver sessions (Some \<lparr>msg_from = from, msg_body = JStr body\<rparr>)
   = (sessions(from \<mapsto> fst (handle_message DENTIST from
          (case sessions from of None \<Rightarrow> fresh_session | Some s \<Rightarrow> s) (trim body))),
      map (sendText deliver) (snd (handle_message DENTIST from
          (case sessions from of None \<Rightarrow> fresh_session | Some s \<Rightarrow> s) (trim body))),
      200)"
  by (simp add: post_webhook_v1_def text_of_body_JStr split: prod.split)

lemma test_prefix_agendar:
  "test_prefix_i ''agendar'' t \<longleftrightarrow> equals_ignoring_case ''agendar'' (take 7 t)"
proof -
  have "length ''agendar'' = 7"
    by simp
  then have "test_prefix_i ''agendar'' t \<longleftrightarrow> test_exact_i ''agendar'' (take 7 t)"
    unfolding test_prefix_i_def test_exact_i_def by (simp only:)
  then show ?thesis
    by (simp only: test_agendar)
qed

lemma prefix_agendar_not_connect:
  assumes "equals_ignoring_case ''agendar'' (take 7 t)"
  shows "\<not> test_prefix_i ''conectar'' t" "\<not> test_prefix_i ''conectar google'' t"
    "\<not> test_prefix_i ''link google'' t"
proof -
  from assms obtain c r where t: "take 7 t = c # r" and c: "c = 0x61 \<or> c = 0x41"
    by (auto simp: equals_ignoring_case_def list_all2_Cons1)
  then obtain r' where t': "t = c # r'"
    by (cases t) auto
  show "\<not> test_prefix_i ''conectar'' t" "\<not> test_prefix_i ''conectar google'' t"
    "\<not> test_prefix_i ''link google'' t"
    using c unfolding t' by (auto simp: test_prefix_i_def js_def canonicalize_def)
qed

section \<open>The subscription handshake\<close>

text \<open>
  C3. The handshake compares the token of the caller with \<open>META_VERIFY_TOKEN\<close> by
  \<open>===\<close>. When the variable is not set and the caller sends the mode \<open>subscribe\<close>
  and no token at all, both sides are undefined and the challenge is echoed: the
  verification does not fail closed.
\<close>

theorem verify_unset_secret_accepts_missing_token:
  "get_webhook None
     \<lparr>hub_mode = JStr (js ''subscribe''), hub_verify_token = JUndefined,
      hub_challenge = JStr (js ''1158201444'')\<rparr>
   = Echo (JStr (js ''1158201444''))"
  by (simp add: get_webhook_def)

section \<open>The cancel command\<close>

text \<open>
  C5. Whatever the session of the sender holds, a message whose trimmed text is the
  cancel command in any case puts the fresh session (step \<open>idle\<close>, no data) in the map,
  sends the cancellation confirmation to the sender and, when \<open>DENTIST\<close> is configured,
  sends it the alert, whose text holds the stored name between \<open>Paciente\<close> and
  \<open>cancelou a consulta\<close>, or the sender when no name, or an empty one, is stored. The
  endpoint answers 200.
\<close>

theorem cancel_resets_session:
  assumes "equals_ignoring_case ''cancelar'' (trim body)"
  shows "let who = (case sessions sender of
                      None \<Rightarrow> sender
                    | Some s \<Rightarrow>
                        (case name (data s) of
                           None \<Rightarrow> sender
                         | Some n \<Rightarrow> if n = [] then sender else n));
             confirmation =
               js ''Sem problemas! Consulta cancelada. Se precisar, digite *agendar* novamente.'';
             alert = [0x26A0, 0xFE0F] @ js '' Paciente '' @ who @ js '' cancelou a consulta.''
         in post_webhook_v1 DENTIST deliver sessions
              (Some \<lparr>msg_from = sender, msg_body = JStr body\<rparr>)
            = (sessions(sender \<mapsto>
                 \<lparr>step = idle, data = \<lparr>name = None, phone = None, slot = None\<rparr>\<rparr>),
               \<lparr>sent_to = sender, sent_body = confirmation,
                 delivered = deliver sender confirmation\<rparr> #
                 (case DENTIST of
                    None \<Rightarrow> []
                  | Some d \<Rightarrow>
                      if d = [] then []
                      else [\<lparr>sent_to = d, sent_body = alert, delivered = deliver d alert\<rparr>]),
               200)"
  using assms
  by (simp add: post_webhook_v1_def text_of_body_JStr handle_message_def fresh_session_def
      empty_data_def configured_def name_or_def test_cancelar sendText_def msg_cancelled_def
      msg_cancel_alert_def Let_def split: option.split)

theorem cancel_resets_session_witness:
  "equals_ignoring_case ''cancelar'' (trim (js '' CANcelar  '')) \<and>
   post_webhook_v1 (Some (js ''5599'')) (\<lambda>to body. False)
     [js ''5511'' \<mapsto> \<lparr>step = confirm,
        data = \<lparr>name = Some (js ''Maria''), phone = Some (js ''11912345678''),
                slot = Some (js ''Hoje 16:00'')\<rparr>\<rparr>]
     (Some \<lparr>msg_from = js ''5511'', msg_body = JStr (js '' CANcelar  '')\<rparr>)
   = ([js ''5511'' \<mapsto> \<lparr>step = idle, data = \<lparr>name = None, phone = None, slot = None\<rparr>\<rparr>],
      [\<lparr>sent_to = js ''5511'',
        sent_body =
          js ''Sem problemas! Consulta cancelada. Se precisar, digite *agendar* novamente.'',
        delivered = False\<rparr>,
       \<lparr>sent_to = js ''5599'',
        sent_body = [0x26A0, 0xFE0F] @ js '' Paciente Maria cancelou a consulta.'',
        delivered = False\<rparr>],
      200)
   \<and> fst (snd (post_webhook_v1 (Some (js ''5599'')) (\<lambda>to body. True) Map.empty
        (Some \<lparr>msg_from = js ''5511'', msg_body = JStr (js ''cancelar'')\<rparr>)))
     = [\<lparr>sent_to = js ''5511'',
         sent_body =
           js ''Sem problemas! Consulta cancelada. Se precisar, digite *agendar* novamente.'',
         delivered = True\<rparr>,
        \<lparr>sent_to = js ''5599'',
         sent_body = [0x26A0, 0xFE0F] @ js '' Paciente 5511 cancelou a consulta.'',
         delivered = True\<rparr>]"
proof -
  have h: "equals_ignoring_case ''cancelar'' (trim (js '' CANcelar  ''))"
    by (simp add: equals_ignoring_case_def trim_def js_def is_ws_def)
  have h': "equals_ignoring_case ''cancelar'' (trim (js ''cancelar''))"
    by (simp add: equals_ignoring_case_def trim_def js_def is_ws_def)
  have m: "js ''Maria'' \<noteq> []" "js ''5599'' \<noteq> []"
    by (simp_all add: js_def)
  have j: "js '' Paciente '' @ js ''Maria'' @ js '' cancelou a consulta.''
           = js '' Paciente Maria cancelou a consulta.''"
    "js '' Paciente '' @ js ''5511'' @ js '' cancelou a consulta.''
           = js '' Paciente 5511 cancelou a consulta.''"
    by (simp_all add: js_def)
  show ?thesis
    using h m j
      cancel_resets_session [OF h, where sender = "js ''5511''"
        and DENTIST = "Some (js ''5599'')" and deliver = "\<lambda>to body. False"
        and sessions = "[js ''5511'' \<mapsto> \<lparr>step = confirm,
            data = \<lparr>name = Some (js ''Maria''), phone = Some (js ''11912345678''),
                    slot = Some (js ''Hoje 16:00'')\<rparr>\<rparr>]"]
      cancel_resets_session [OF h', where sender = "js ''5511''"
        and DENTIST = "Some (js ''5599'')" and deliver = "\<lambda>to body. True"
        and sessions = Map.empty]
    by (simp add: Let_def)
qed

section \<open>The schedule command sent in the middle of the dialogue\<close>

text \<open>
  C2, as the claim states it, fails: at step \<open>get_name\<close> the text \<open>agendar\<close> is not
  stored as the name and the step does not advance to \<open>get_phone\<close>, because the test of
  line 72 comes before the rules of the steps.
\<close>

theorem schedule_at_get_name_counterexample:
  "\<not> (step (turn None (js ''5511'') \<lparr>step = get_name, data = empty_data\<rparr> (js ''agendar''))
        = get_phone
      \<and> name (data (turn None (js ''5511'') \<lparr>step = get_name, data = empty_data\<rparr>
                       (js ''agendar'')))
          = Some (js ''agendar''))"
  by (simp add: turn_def handle_message_def test_exact_i_def js_def canonicalize_def)

text \<open>
  C2, amended. At every step a message whose trimmed text is the schedule command in any
  case is consumed by the test of line 72: the step becomes \<open>get_name\<close>, the data of the
  session stays as it was, and the only message sent is the prompt for the name.
\<close>

theorem schedule_command_restarts:
  assumes "equals_ignoring_case ''agendar'' (trim body)"
    and "sessions from = Some s"
  shows "post_webhook_v1 DENTIST deliver sessions
           (Some \<lparr>msg_from = from, msg_body = JStr body\<rparr>)
         = (sessions(from \<mapsto> s\<lparr>step := get_name\<rparr>), [sendText deliver (from, msg_ask_name)], 200)"
  using assms cancelar_not_agendar [of "trim body"]
  by (auto simp: post_webhook_v1_def text_of_body_JStr handle_message_def test_agendar)

theorem schedule_command_restarts_witness:
  "equals_ignoring_case ''agendar'' (trim (js ''Agendar ''))
   \<and> [js ''5511'' \<mapsto> \<lparr>step = confirm,
         data = \<lparr>name = Some (js ''Maria''), phone = Some (js ''11912345678''),
                 slot = Some (js ''Hoje 16:00'')\<rparr>\<rparr>] (js ''5511'')
       = Some \<lparr>step = confirm,
           data = \<lparr>name = Some (js ''Maria''), phone = Some (js ''11912345678''),
                   slot = Some (js ''Hoje 16:00'')\<rparr>\<rparr>
   \<and> post_webhook_v1 None (\<lambda>to body. True)
        [js ''5511'' \<mapsto> \<lparr>step = confirm,
           data = \<lparr>name = Some (js ''Maria''), phone = Some (js ''11912345678''),
                   slot = Some (js ''Hoje 16:00'')\<rparr>\<rparr>]
        (Some \<lparr>msg_from = js ''5511'', msg_body = JStr (js ''Agendar '')\<rparr>)
      = ([js ''5511'' \<mapsto> \<lparr>step = get_name,
            data = \<lparr>name = Some (js ''Maria''), phone = Some (js ''11912345678''),
                    slot = Some (js ''Hoje 16:00'')\<rparr>\<rparr>],
         [\<lparr>sent_to = js ''5511'', sent_body = msg_ask_name, delivered = True\<rparr>], 200)"
proof -
  have h: "equals_ignoring_case ''agendar'' (trim (js ''Agendar ''))"
    by (simp add: equals_ignoring_case_def trim_def js_def is_ws_def)
  show ?thesis
    using h
      schedule_command_restarts [OF h, of
        "[js ''5511'' \<mapsto> \<lparr>step = confirm,
            data = \<lparr>name = Some (js ''Maria''), phone = Some (js ''11912345678''),
                    slot = Some (js ''Hoje 16:00'')\<rparr>\<rparr>]" "js ''5511''"
        "\<lparr>step = confirm,
            data = \<lparr>name = Some (js ''Maria''), phone = Some (js ''11912345678''),
                    slot = Some (js ''Hoje 16:00'')\<rparr>\<rparr>" None "\<lambda>to body. True"]
    by (simp add: sendText_def)
qed

section \<open>The step gating of the session data\<close>

text \<open>
  C1, as the claim states it, fails: after a name and a phone number were collected, the
  schedule command sent at step \<open>offer_slots\<close> sets the step back to \<open>get_name\<close> and keeps
  the phone number, so a reachable session holds a phone number at a step that has not
  passed \<open>get_phone\<close>.
\<close>

theorem step_gating_restart_counterexample:
  "\<not> step_gating_invariant
       (run None (js ''5511'')
          [js ''oi'', js ''Maria Silva'', js ''(11) 91234-5678'', js ''agendar''])"
  by (simp add: run_def turn_def handle_message_def step_gating_invariant_def fresh_session_def
      empty_data_def test_exact_i_def js_def canonicalize_def)

text \<open>
  C1, amended. Every transition of the dialogue other than the schedule command sent at
  step \<open>offer_slots\<close> or \<open>confirm\<close> preserves the step gating, and every session reached
  from the fresh idle session by any sequence of messages has no data when its step is
  \<open>idle\<close>.
\<close>

theorem step_gating_preserved_except_restart:
  "(step_gating_invariant s
      \<and> \<not> (equals_ignoring_case ''agendar'' text \<and> (step s = offer_slots \<or> step s = confirm))
    \<longrightarrow> step_gating_invariant (turn DENTIST from s text))
   \<and> (step (run DENTIST from texts) = idle \<longrightarrow> data (run DENTIST from texts) = empty_data)"
proof (intro conjI impI)
  assume "step_gating_invariant s
      \<and> \<not> (equals_ignoring_case ''agendar'' text \<and> (step s = offer_slots \<or> step s = confirm))"
  then show "step_gating_invariant (turn DENTIST from s text)"
    by (intro turn_preserves_gating) (simp_all add: test_agendar)
next
  assume "step (run DENTIST from texts) = idle"
  moreover have "step fresh_session = idle \<longrightarrow> data fresh_session = empty_data"
    by (simp add: fresh_session_def)
  ultimately show "data (run DENTIST from texts) = empty_data"
    unfolding run_def using foldl_turn_idle_empty by blast
qed

theorem step_gating_preserved_except_restart_witness:
  "step_gating_invariant \<lparr>step = get_phone, data = \<lparr>name = Some (js ''Maria''), phone = None, slot = None\<rparr>\<rparr>
   \<and> \<not> (equals_ignoring_case ''agendar'' (js ''(11) 91234-5678'')
          \<and> (step \<lparr>step = get_phone, data = \<lparr>name = Some (js ''Maria''), phone = None, slot = None\<rparr>\<rparr>
                = offer_slots
              \<or> step \<lparr>step = get_phone, data = \<lparr>name = Some (js ''Maria''), phone = None, slot = None\<rparr>\<rparr>
                = confirm))
   \<and> step_gating_invariant
         (turn None (js ''5511'')
            \<lparr>step = get_phone, data = \<lparr>name = Some (js ''Maria''), phone = None, slot = None\<rparr>\<rparr>
            (js ''(11) 91234-5678''))
   \<and> step (run None (js ''5511'') [js ''oi'', js ''Maria'', js ''cancelar'']) = idle
   \<and> data (run None (js ''5511'') [js ''oi'', js ''Maria'', js ''cancelar'']) = empty_data"
proof -
  have h1: "step_gating_invariant
              \<lparr>step = get_phone, data = \<lparr>name = Some (js ''Maria''), phone = None, slot = None\<rparr>\<rparr>"
    by (simp add: step_gating_invariant_def)
  have h2: "step (run None (js ''5511'') [js ''oi'', js ''Maria'', js ''cancelar'']) = idle"
    by (simp add: run_def turn_def handle_message_def fresh_session_def test_exact_i_def js_def
        canonicalize_def configured_def)
  show ?thesis
    using h1 h2
      step_gating_preserved_except_restart [of
        "\<lparr>step = get_phone, data = \<lparr>name = Some (js ''Maria''), phone = None, slot = None\<rparr>\<rparr>"
        "js ''(11) 91234-5678''" None "js ''5511''" "[js ''oi'', js ''Maria'', js ''cancelar'']"]
    by simp
qed

section \<open>The phone number\<close>

text \<open>
  C8, as the claim states it, fails for the two command words: at step \<open>get_phone\<close> the
  text \<open>agendar\<close> is consumed by the test of line 72, so no phone number is stored and
  the step does not become \<open>offer_slots\<close>.
\<close>

theorem phone_step_command_counterexample:
  "\<not> (step (turn None (js ''5511'') \<lparr>step = get_phone, data = empty_data\<rparr> (js ''agendar''))
        = offer_slots
      \<and> phone (data (turn None (js ''5511'') \<lparr>step = get_phone, data = empty_data\<rparr>
                        (js ''agendar'')))
          = Some (strip_non_digits (js ''agendar'')))"
  by (simp add: turn_def handle_message_def test_exact_i_def js_def canonicalize_def)

text \<open>
  C8, amended. For every session at step \<open>get_phone\<close> and every text other than the
  cancel and the schedule command, the turn stores the text without its non-digit code
  units as \<open>data.phone\<close>, leaves the rest of the data as it was, sets the step to
  \<open>offer_slots\<close> and sends the slot list.
\<close>

theorem phone_step_stores_digits:
  assumes "sessions from = Some s" and "step s = get_phone"
    and "\<not> equals_ignoring_case ''cancelar'' (trim body)"
    and "\<not> equals_ignoring_case ''agendar'' (trim body)"
  shows "post_webhook_v1 DENTIST deliver sessions
           (Some \<lparr>msg_from = from, msg_body = JStr body\<rparr>)
         = (sessions(from \<mapsto> s\<lparr>step := offer_slots,
                                  data := (data s)\<lparr>phone := Some (filter is_digit body)\<rparr>\<rparr>),
            [sendText deliver (from, msg_offer_slots (name (data s)))], 200)"
  using assms strip_non_digits_trim [of body]
  by (simp add: post_webhook_v1_def text_of_body_JStr handle_message_def test_agendar
      test_cancelar strip_non_digits_def)

theorem phone_step_stores_digits_witness:
  "[js ''5511'' \<mapsto> \<lparr>step = get_phone, data = \<lparr>name = Some (js ''Maria''), phone = None, slot = None\<rparr>\<rparr>]
     (js ''5511'')
     = Some \<lparr>step = get_phone, data = \<lparr>name = Some (js ''Maria''), phone = None, slot = None\<rparr>\<rparr>
   \<and> step \<lparr>step = get_phone, data = \<lparr>name = Some (js ''Maria''), phone = None, slot = None\<rparr>\<rparr>
       = get_phone
   \<and> \<not> equals_ignoring_case ''cancelar'' (trim (js ''(11) 91234-5678''))
   \<and> \<not> equals_ignoring_case ''agendar'' (trim (js ''(11) 91234-5678''))
   \<and> fst (post_webhook_v1 None (\<lambda>to body. True)
        [js ''5511'' \<mapsto> \<lparr>step = get_phone,
           data = \<lparr>name = Some (js ''Maria''), phone = None, slot = None\<rparr>\<rparr>]
        (Some \<lparr>msg_from = js ''5511'', msg_body = JStr (js ''(11) 91234-5678'')\<rparr>))
      = [js ''5511'' \<mapsto> \<lparr>step = offer_slots,
           data = \<lparr>name = Some (js ''Maria''), phone = Some (js ''11912345678''), slot = None\<rparr>\<rparr>]"
proof -
  have t: "trim (js ''(11) 91234-5678'') = js ''(11) 91234-5678''"
    by (simp add: trim_def js_def is_ws_def)
  have h3: "\<not> equals_ignoring_case ''cancelar'' (trim (js ''(11) 91234-5678''))"
    unfolding t by (simp add: equals_ignoring_case_def js_def)
  have h4: "\<not> equals_ignoring_case ''agendar'' (trim (js ''(11) 91234-5678''))"
    unfolding t by (simp add: equals_ignoring_case_def js_def)
  have d: "filter is_digit (js ''(11) 91234-5678'') = js ''11912345678''"
    by (simp add: js_def is_digit_def)
  show ?thesis
    using h3 h4 d
      phone_step_stores_digits [OF _ _ h3 h4, of
        "[js ''5511'' \<mapsto> \<lparr>step = get_phone,
            data = \<lparr>name = Some (js ''Maria''), phone = None, slot = None\<rparr>\<rparr>]" "js ''5511''"
        "\<lparr>step = get_phone, data = \<lparr>name = Some (js ''Maria''), phone = None, slot = None\<rparr>\<rparr>"
        None "\<lambda>to body. True"]
    by simp
qed

section \<open>The choice of a slot\<close>

text \<open>
  C6, as the claim states it, fails for the schedule command: at step \<open>offer_slots\<close>
  the text \<open>agendar\<close> does not parse as a number, and the test of line 72 sets the step
  to \<open>get_name\<close> instead of leaving it at \<open>offer_slots\<close>.
\<close>

theorem invalid_slot_choice_command_counterexample:
  "Number (js ''agendar'') = NaN
   \<and> step (turn None (js ''5511'')
             \<lparr>step = offer_slots,
              data = \<lparr>name = Some (js ''Maria''), phone = Some (js ''11912345678''), slot = None\<rparr>\<rparr>
             (js ''agendar''))
       \<noteq> offer_slots"
proof -
  have "equals_ignoring_case ''agendar'' (js ''agendar'')"
    by (simp add: equals_ignoring_case_def js_def)
  then have "Number (js ''agendar'') = NaN" "test_exact_i ''agendar'' (js ''agendar'')"
    by (simp_all add: Number_agendar test_agendar)
  then show ?thesis
    by (simp add: turn_def handle_message_def fresh_session_def)
qed

text \<open>
  C6, amended. For every session at step \<open>offer_slots\<close>, a text other than the cancel and
  the schedule command whose \<open>Number\<close> value is the id of no slot of the catalog (NaN
  included) leaves the session map as it was, sends only the prompt that asks for a
  valid id, and is answered with status 200.
\<close>

theorem invalid_slot_choice_keeps_session:
  assumes "sessions from = Some s" and "step s = offer_slots"
    and "\<not> equals_ignoring_case ''cancelar'' (trim body)"
    and "\<not> equals_ignoring_case ''agendar'' (trim body)"
    and "\<forall>sl \<in> set SLOTS. Number (trim body) \<noteq> Fin (of_nat (slot_id sl))"
  shows "post_webhook_v1 DENTIST deliver sessions
           (Some \<lparr>msg_from = from, msg_body = JStr body\<rparr>)
         = (sessions, [sendText deliver (from, msg_bad_slot)], 200)"
proof -
  have "find (\<lambda>sl. Fin (of_nat (slot_id sl)) = Number (trim body)) SLOTS = None"
    using assms(5) by (auto simp: find_None_iff)
  moreover have "sessions(from \<mapsto> s) = sessions"
    using assms(1) by (rule map_upd_triv)
  ultimately show ?thesis
    using assms(1-4)
    by (simp add: post_webhook_v1_def text_of_body_JStr handle_message_def test_agendar
        test_cancelar)
qed

theorem invalid_slot_choice_keeps_session_witness:
  "[js ''5511'' \<mapsto> \<lparr>step = offer_slots,
      data = \<lparr>name = Some (js ''Maria''), phone = Some (js ''11912345678''), slot = None\<rparr>\<rparr>]
     (js ''5511'')
     = Some \<lparr>step = offer_slots,
         data = \<lparr>name = Some (js ''Maria''), phone = Some (js ''11912345678''), slot = None\<rparr>\<rparr>
   \<and> \<not> equals_ignoring_case ''cancelar'' (trim (js ''amanha''))
   \<and> \<not> equals_ignoring_case ''agendar'' (trim (js ''amanha''))
   \<and> Number (trim (js ''amanha'')) = NaN
   \<and> post_webhook_v1 None (\<lambda>to body. True)
        [js ''5511'' \<mapsto> \<lparr>step = offer_slots,
           data = \<lparr>name = Some (js ''Maria''), phone = Some (js ''11912345678''), slot = None\<rparr>\<rparr>]
        (Some \<lparr>msg_from = js ''5511'', msg_body = JStr (js ''amanha'')\<rparr>)
      = ([js ''5511'' \<mapsto> \<lparr>step = offer_slots,
            data = \<lparr>name = Some (js ''Maria''), phone = Some (js ''11912345678''), slot = None\<rparr>\<rparr>],
         [\<lparr>sent_to = js ''5511'', sent_body = msg_bad_slot, delivered = True\<rparr>], 200)"
proof -
  have t: "trim (js ''amanha'') = js ''amanha''"
    by (simp add: trim_def js_def is_ws_def)
  have h3: "\<not> equals_ignoring_case ''cancelar'' (trim (js ''amanha''))"
    unfolding t by (simp add: equals_ignoring_case_def js_def)
  have h4: "\<not> equals_ignoring_case ''agendar'' (trim (js ''amanha''))"
    unfolding t by (simp add: equals_ignoring_case_def js_def)
  have "Number (js ''amanha'') = NaN"
    by (rule Number_letter_word [of _ "0x61" "js ''manh''" "0x61"])
      (simp_all add: js_def is_ws_def is_digit_def)
  then have n: "Number (trim (js ''amanha'')) = NaN"
    unfolding t .
  then have h5: "\<forall>sl \<in> set SLOTS. Number (trim (js ''amanha'')) \<noteq> Fin (of_nat (slot_id sl))"
    by simp
  show ?thesis
    using h3 h4 n
      invalid_slot_choice_keeps_session [OF _ _ h3 h4 h5, of
        "[js ''5511'' \<mapsto> \<lparr>step = offer_slots,
            data = \<lparr>name = Some (js ''Maria''), phone = Some (js ''11912345678''),
                    slot = None\<rparr>\<rparr>]" "js ''5511''"
        "\<lparr>step = offer_slots,
            data = \<lparr>name = Some (js ''Maria''), phone = Some (js ''11912345678''),
                    slot = None\<rparr>\<rparr>" None "\<lambda>to body. True"]
    by (simp add: sendText_def)
qed

text \<open>
  C10. At step \<open>offer_slots\<close> every text whose \<open>Number\<close> value is the id of a slot of the
  catalog selects that slot: its label is stored as \<open>data.slot\<close>, the step becomes
  \<open>confirm\<close> and the confirmation prompt is sent. The texts \<open>2.0\<close>, \<open>2e0\<close> and \<open>0x2\<close>
  all have the value 2 and select the slot with id 2; the empty text has the value 0 and
  is answered with the prompt for a valid id.
\<close>

theorem number_coercion_selects_slot:
  assumes "step s = offer_slots"
  shows "(\<forall>sl \<in> set SLOTS. Number text = Fin (of_nat (slot_id sl)) \<longrightarrow>
            handle_message DENTIST from s text
            = (s\<lparr>step := confirm, data := (data s)\<lparr>slot := Some (slot_when sl)\<rparr>\<rparr>,
               [(from, msg_confirm_prompt (slot_when sl))]))
         \<and> (\<forall>text' \<in> {js ''2.0'', js ''2e0'', js ''0x2''}.
              Number text' = Fin 2
              \<and> handle_message DENTIST from s text'
                = (s\<lparr>step := confirm,
                      data := (data s)\<lparr>slot := Some (js ''Amanh'' @ [0xE3] @ js '' 10:30'')\<rparr>\<rparr>,
                   [(from, msg_confirm_prompt (js ''Amanh'' @ [0xE3] @ js '' 10:30''))]))
         \<and> Number [] = Fin 0
         \<and> handle_message DENTIST from s [] = (s, [(from, msg_bad_slot)])"
proof -
  have general: "handle_message DENTIST from s t
            = (s\<lparr>step := confirm, data := (data s)\<lparr>slot := Some (slot_when sl)\<rparr>\<rparr>,
               [(from, msg_confirm_prompt (slot_when sl))])"
    if "sl \<in> set SLOTS" and "Number t = Fin (of_nat (slot_id sl))" for sl t
  proof -
    have "\<not> test_exact_i ''cancelar'' t" "\<not> test_exact_i ''agendar'' t"
      using that(2) Number_cancelar [of t] Number_agendar [of t]
      by (auto simp: test_cancelar test_agendar)
    then show ?thesis
      using assms that(2) find_slot [OF that(1)]
      by (simp add: handle_message_def)
  qed
  have two: "\<lparr>slot_id = 2, slot_when = js ''Amanh'' @ [0xE3] @ js '' 10:30''\<rparr> \<in> set SLOTS"
    by (simp add: SLOTS_def)
  have examples: "handle_message DENTIST from s t
                = (s\<lparr>step := confirm,
                      data := (data s)\<lparr>slot := Some (js ''Amanh'' @ [0xE3] @ js '' 10:30'')\<rparr>\<rparr>,
                   [(from, msg_confirm_prompt (js ''Amanh'' @ [0xE3] @ js '' 10:30''))])"
    if "Number t = Fin 2" for t
    using general [OF two, of t] that by simp
  have empty: "handle_message DENTIST from s [] = (s, [(from, msg_bad_slot)])"
    using assms
    by (simp add: handle_message_def test_exact_i_def js_def Number_empty SLOTS_def)
  show ?thesis
    using general examples empty Number_2_0 Number_2e0 Number_0x2 Number_empty
    by blast
qed

theorem number_coercion_selects_slot_witness:
  "step \<lparr>step = offer_slots, data = \<lparr>name = Some (js ''Maria''), phone = None, slot = None\<rparr>\<rparr>
     = offer_slots
   \<and> \<lparr>slot_id = 2, slot_when = js ''Amanh'' @ [0xE3] @ js '' 10:30''\<rparr> \<in> set SLOTS
   \<and> Number (js ''0x2'') = Fin (of_nat 2)
   \<and> handle_message None (js ''5511'')
        \<lparr>step = offer_slots, data = \<lparr>name = Some (js ''Maria''), phone = None, slot = None\<rparr>\<rparr>
        (js ''0x2'')
      = (\<lparr>step = confirm,
          data = \<lparr>name = Some (js ''Maria''), phone = None,
                  slot = Some (js ''Amanh'' @ [0xE3] @ js '' 10:30'')\<rparr>\<rparr>,
         [(js ''5511'', msg_confirm_prompt (js ''Amanh'' @ [0xE3] @ js '' 10:30''))])"
proof -
  have two: "\<lparr>slot_id = 2, slot_when = js ''Amanh'' @ [0xE3] @ js '' 10:30''\<rparr> \<in> set SLOTS"
    by (simp add: SLOTS_def)
  have n: "Number (js ''0x2'') = Fin (of_nat 2)"
    by (simp add: Number_0x2)
  have "handle_message None (js ''5511'')
        \<lparr>step = offer_slots, data = \<lparr>name = Some (js ''Maria''), phone = None, slot = None\<rparr>\<rparr>
        (js ''0x2'')
      = (\<lparr>step = offer_slots, data = \<lparr>name = Some (js ''Maria''), phone = None, slot = None\<rparr>\<rparr>
           \<lparr>step := confirm,
            data := (data \<lparr>step = offer_slots,
                           data = \<lparr>name = Some (js ''Maria''), phone = None, slot = None\<rparr>\<rparr>)
                      \<lparr>slot := Some (slot_when
                          \<lparr>slot_id = 2, slot_when = js ''Amanh'' @ [0xE3] @ js '' 10:30''\<rparr>)\<rparr>\<rparr>,
         [(js ''5511'', msg_confirm_prompt (slot_when
              \<lparr>slot_id = 2, slot_when = js ''Amanh'' @ [0xE3] @ js '' 10:30''\<rparr>))])"
    using number_coercion_selects_slot [of
        "\<lparr>step = offer_slots, data = \<lparr>name = Some (js ''Maria''), phone = None, slot = None\<rparr>\<rparr>"
        "js ''0x2''" None "js ''5511''"] two n
    by (auto simp del: of_nat_numeral)
  then show ?thesis
    using two n by simp
qed

section \<open>Command matching\<close>

text \<open>
  C7, as the claim states it, fails on the second server.js: its schedule rule tests
  \<open>/^agendar/i\<close>, so the trimmed text \<open>agendarXYZ\<close>, which only begins with the command
  word, triggers the schedule reply.
\<close>

theorem prefix_match_v2_counterexample:
  "post_webhook_v2 (\<lambda>to body. True) (Some (js ''https://bot.example/google/auth?dentist_id=default''))
     (Some \<lparr>msg_from = js ''5511'', msg_body = JStr (js ''agendarXYZ'')\<rparr>)
   = ([\<lparr>sent_to = js ''5511'', sent_body = msg_schedule_v2, delivered = True\<rparr>], 200)"
  by (simp add: post_webhook_v2_def text_of_body_v2_def trim_def js_def is_ws_def
      test_prefix_i_def canonicalize_def sendText_def)

text \<open>
  C7, amended. In the dialogue of the first server.js the commands are matched on the
  trimmed text without regard to case and the text must be the whole command word: the
  cancellation confirmation is sent exactly when the trimmed text is the cancel command,
  at a step other than \<open>idle\<close> the prompt for the name is sent exactly when it is the
  schedule command, and at step \<open>confirm\<close> the booking is confirmed exactly when it is
  the confirm command. In the second server.js the schedule reply is sent for every
  trimmed text that begins with the schedule command.
\<close>

theorem command_matching:
  "(sendText deliver (from, msg_cancelled)
      \<in> set (fst (snd (post_webhook_v1 DENTIST deliver sessions
                  (Some \<lparr>msg_from = from, msg_body = JStr body\<rparr>))))
    \<longleftrightarrow> equals_ignoring_case ''cancelar'' (trim body))
   \<and> (sessions from = Some s \<and> step s \<noteq> idle \<longrightarrow>
        (sendText deliver (from, msg_ask_name)
           \<in> set (fst (snd (post_webhook_v1 DENTIST deliver sessions
                  (Some \<lparr>msg_from = from, msg_body = JStr body\<rparr>))))
         \<longleftrightarrow> equals_ignoring_case ''agendar'' (trim body)))
   \<and> (sessions from = Some s \<and> step s = confirm \<longrightarrow>
        (sendText deliver (from, msg_confirmed (slot (data s)))
           \<in> set (fst (snd (post_webhook_v1 DENTIST deliver sessions
                  (Some \<lparr>msg_from = from, msg_body = JStr body\<rparr>))))
         \<longleftrightarrow> equals_ignoring_case ''confirmo'' (trim body)))
   \<and> (equals_ignoring_case ''agendar'' (take 7 (trim body)) \<longrightarrow>
        post_webhook_v2 deliver auth_url (Some \<lparr>msg_from = from, msg_body = JStr body\<rparr>)
        = ([sendText deliver (from, msg_schedule_v2)], 200))"
proof (intro conjI impI)
  show "sendText deliver (from, msg_cancelled)
      \<in> set (fst (snd (post_webhook_v1 DENTIST deliver sessions
                  (Some \<lparr>msg_from = from, msg_body = JStr body\<rparr>))))
    \<longleftrightarrow> equals_ignoring_case ''cancelar'' (trim body)"
    unfolding post_webhook_v1_JStr by (simp only: fst_conv snd_conv sendText_mem cancelled_sent_iff)
next
  assume "sessions from = Some s \<and> step s \<noteq> idle"
  then show "sendText deliver (from, msg_ask_name)
           \<in> set (fst (snd (post_webhook_v1 DENTIST deliver sessions
                  (Some \<lparr>msg_from = from, msg_body = JStr body\<rparr>))))
         \<longleftrightarrow> equals_ignoring_case ''agendar'' (trim body)"
    unfolding post_webhook_v1_JStr
    by (simp add: sendText_mem ask_name_sent_iff del: set_map)
next
  assume "sessions from = Some s \<and> step s = confirm"
  then show "sendText deliver (from, msg_confirmed (slot (data s)))
           \<in> set (fst (snd (post_webhook_v1 DENTIST deliver sessions
                  (Some \<lparr>msg_from = from, msg_body = JStr body\<rparr>))))
         \<longleftrightarrow> equals_ignoring_case ''confirmo'' (trim body)"
    unfolding post_webhook_v1_JStr
    by (simp add: sendText_mem confirmed_sent_iff del: set_map)
next
  assume a: "equals_ignoring_case ''agendar'' (take 7 (trim body))"
  show "post_webhook_v2 deliver auth_url (Some \<lparr>msg_from = from, msg_body = JStr body\<rparr>)
        = ([sendText deliver (from, msg_schedule_v2)], 200)"
    using a prefix_agendar_not_connect [OF a]
    by (simp add: post_webhook_v2_def text_of_body_v2_def test_prefix_agendar)
qed

theorem command_matching_witness:
  "[js ''5511'' \<mapsto> \<lparr>step = confirm, data = empty_data\<rparr>] (js ''5511'')
     = Some \<lparr>step = confirm, data = empty_data\<rparr>
   \<and> step \<lparr>step = confirm, data = empty_data\<rparr> \<noteq> idle
   \<and> step \<lparr>step = confirm, data = empty_data\<rparr> = confirm
   \<and> equals_ignoring_case ''agendar'' (take 7 (trim (js ''agendarXYZ'')))
   \<and> \<not> equals_ignoring_case ''agendar'' (trim (js ''agendarXYZ''))
   \<and> sendText (\<lambda>to body. True) (js ''5511'', msg_ask_name)
       \<notin> set (fst (snd (post_webhook_v1 None (\<lambda>to body. True)
                  [js ''5511'' \<mapsto> \<lparr>step = confirm, data = empty_data\<rparr>]
                  (Some \<lparr>msg_from = js ''5511'', msg_body = JStr (js ''agendarXYZ'')\<rparr>))))
   \<and> post_webhook_v2 (\<lambda>to body. True) None
        (Some \<lparr>msg_from = js ''5511'', msg_body = JStr (js ''agendarXYZ'')\<rparr>)
      = ([sendText (\<lambda>to body. True) (js ''5511'', msg_schedule_v2)], 200)"
proof -
  have t: "trim (js ''agendarXYZ'') = js ''agendarXYZ''"
    by (simp add: trim_def js_def is_ws_def)
  have h1: "equals_ignoring_case ''agendar'' (take 7 (trim (js ''agendarXYZ'')))"
    unfolding t by (simp add: equals_ignoring_case_def js_def)
  have h2: "\<not> equals_ignoring_case ''agendar'' (trim (js ''agendarXYZ''))"
    unfolding t by (simp add: equals_ignoring_case_def js_def)
  show ?thesis
    using h1 h2
      command_matching [of "\<lambda>to body. True" "js ''5511''" None
        "[js ''5511'' \<mapsto> \<lparr>step = confirm, data = empty_data\<rparr>]" "js ''agendarXYZ''"
        "\<lparr>step = confirm, data = empty_data\<rparr>" None]
    by simp
qed

section \<open>The status of POST /webhook and failed deliveries\<close>

text \<open>
  C9, as the claim states it, fails on the second server.js: a text body that is not a
  string makes \<open>trim\<close> throw, and the \<open>catch\<close> of line 427 answers 500, not 200.
\<close>

theorem webhook_v2_error_status_counterexample:
  "post_webhook_v2 (\<lambda>to body. True)
     (Some (js ''https://bot.example/google/auth?dentist_id=default''))
     (Some \<lparr>msg_from = js ''5511'', msg_body = JNum (Fin 5)\<rparr>)
   = ([], 500)"
  by (simp add: post_webhook_v2_def text_of_body_v2_def)

text \<open>
  C9, amended. The endpoint of the first server.js answers 200 to every request, also
  when the handler throws (a truthy text body that is not a string: nothing is sent and
  the session map stays as it was); the outcome of the deliveries changes neither its
  session map nor the status of either endpoint. The endpoint of the second server.js
  answers 500, and has sent nothing, exactly when the handler throws: the text body is
  neither a string nor undefined nor null, or the text is a connect phrase and the URL of
  the authorization page cannot be built; otherwise it answers 200.
\<close>

theorem webhook_status_and_delivery:
  "snd (snd (post_webhook_v1 DENTIST deliver sessions req)) = 200
   \<and> fst (post_webhook_v1 DENTIST deliver sessions req)
       = fst (post_webhook_v1 DENTIST deliver' sessions req)
   \<and> (truthy b \<and> (\<forall>s. b \<noteq> JStr s) \<longrightarrow>
        post_webhook_v1 DENTIST deliver sessions (Some \<lparr>msg_from = sender, msg_body = b\<rparr>)
        = (sessions, [], 200))
   \<and> snd (post_webhook_v2 deliver auth_url req) = snd (post_webhook_v2 deliver' auth_url req)
   \<and> snd (post_webhook_v2 deliver auth_url None) = 200
   \<and> snd (post_webhook_v2 deliver auth_url (Some \<lparr>msg_from = sender, msg_body = b\<rparr>))
       = (case b of
            JUndefined \<Rightarrow> 200
          | JNull \<Rightarrow> 200
          | JStr s \<Rightarrow>
              if auth_url = None
                 \<and> (test_prefix_i ''conectar'' (trim s)
                      \<or> test_prefix_i ''conectar google'' (trim s)
                      \<or> test_prefix_i ''link google'' (trim s))
              then 500 else 200
          | JBool v \<Rightarrow> 500
          | JNum n \<Rightarrow> 500
          | JObj i \<Rightarrow> 500)
   \<and> (snd (post_webhook_v2 deliver auth_url req) = 500 \<longrightarrow>
        fst (post_webhook_v2 deliver auth_url req) = [])"
proof (intro conjI impI)
  show "snd (snd (post_webhook_v1 DENTIST deliver sessions req)) = 200"
    by (simp add: post_webhook_v1_def Let_def split: option.splits prod.splits)
  show "fst (post_webhook_v1 DENTIST deliver sessions req)
       = fst (post_webhook_v1 DENTIST deliver' sessions req)"
    by (simp add: post_webhook_v1_def Let_def split: option.splits prod.splits)
  show "snd (post_webhook_v2 deliver auth_url req) = snd (post_webhook_v2 deliver' auth_url req)"
    by (simp add: post_webhook_v2_def split: option.splits)
  show "snd (post_webhook_v2 deliver auth_url None) = 200"
    by (simp add: post_webhook_v2_def)
  have no_prefix: "\<not> test_prefix_i ''conectar'' []" "\<not> test_prefix_i ''conectar google'' []"
    "\<not> test_prefix_i ''link google'' []"
    by (simp_all add: test_prefix_i_def js_def)
  show "snd (post_webhook_v2 deliver auth_url (Some \<lparr>msg_from = sender, msg_body = b\<rparr>))
       = (case b of
            JUndefined \<Rightarrow> 200
          | JNull \<Rightarrow> 200
          | JStr s \<Rightarrow>
              if auth_url = None
                 \<and> (test_prefix_i ''conectar'' (trim s)
                      \<or> test_prefix_i ''conectar google'' (trim s)
                      \<or> test_prefix_i ''link google'' (trim s))
              then 500 else 200
          | JBool v \<Rightarrow> 500
          | JNum n \<Rightarrow> 500
          | JObj i \<Rightarrow> 500)"
    using no_prefix
    by (cases b) (auto simp: post_webhook_v2_def text_of_body_v2_def split: option.splits)
next
  assume "truthy b \<and> (\<forall>s. b \<noteq> JStr s)"
  then show "post_webhook_v1 DENTIST deliver sessions (Some \<lparr>msg_from = sender, msg_body = b\<rparr>)
        = (sessions, [], 200)"
    by (cases b) (simp_all add: post_webhook_v1_def text_of_body_def)
next
  assume "snd (post_webhook_v2 deliver auth_url req) = 500"
  then show "fst (post_webhook_v2 deliver auth_url req) = []"
    by (auto simp: post_webhook_v2_def split: option.splits if_splits)
qed

theorem webhook_status_and_delivery_witness:
  "post_webhook_v1 None (\<lambda>to body. False) Map.empty
     (Some \<lparr>msg_from = js ''5511'', msg_body = JNum (Fin 5)\<rparr>)
   = (Map.empty, [], 200)
   \<and> snd (post_webhook_v2 (\<lambda>to body. False) None
        (Some \<lparr>msg_from = js ''5511'', msg_body = JBool False\<rparr>)) = 500
   \<and> fst (post_webhook_v2 (\<lambda>to body. False) None
        (Some \<lparr>msg_from = js ''5511'', msg_body = JBool False\<rparr>)) = []
   \<and> snd (post_webhook_v2 (\<lambda>to body. False) None
        (Some \<lparr>msg_from = js ''5511'', msg_body = JStr (js ''conectar google'')\<rparr>)) = 500
   \<and> snd (post_webhook_v2 (\<lambda>to body. False)
        (Some (js ''https://bot.example/google/auth?dentist_id=default''))
        (Some \<lparr>msg_from = js ''5511'', msg_body = JStr (js ''conectar google'')\<rparr>)) = 200
   \<and> snd (post_webhook_v2 (\<lambda>to body. False) None
        (Some \<lparr>msg_from = js ''5511'', msg_body = JStr (js ''oi'')\<rparr>)) = 200"
proof -
  have t: "trim (js ''conectar google'') = js ''conectar google''" "trim (js ''oi'') = js ''oi''"
    by (simp_all add: trim_def js_def is_ws_def)
  have p: "test_prefix_i ''conectar'' (js ''conectar google'')"
    "\<not> test_prefix_i ''conectar'' (js ''oi'')" "\<not> test_prefix_i ''conectar google'' (js ''oi'')"
    "\<not> test_prefix_i ''link google'' (js ''oi'')"
    by (simp_all add: test_prefix_i_def js_def canonicalize_def)
  note T = webhook_status_and_delivery [where deliver = "\<lambda>to body. False" and DENTIST = None
      and sessions = Map.empty and sender = "js ''5511''"]
  have a: "post_webhook_v1 None (\<lambda>to body. False) Map.empty
     (Some \<lparr>msg_from = js ''5511'', msg_body = JNum (Fin 5)\<rparr>)
   = (Map.empty, [], 200)"
    using T [where b = "JNum (Fin 5)"] by simp
  have b: "snd (post_webhook_v2 (\<lambda>to body. False) None
        (Some \<lparr>msg_from = js ''5511'', msg_body = JBool False\<rparr>)) = 500"
    using T [where b = "JBool False" and auth_url = None] by simp
  have c: "fst (post_webhook_v2 (\<lambda>to body. False) None
        (Some \<lparr>msg_from = js ''5511'', msg_body = JBool False\<rparr>)) = []"
    using b T [where auth_url = None
        and req = "Some \<lparr>msg_from = js ''5511'', msg_body = JBool False\<rparr>"]
    by blast
  have d: "snd (post_webhook_v2 (\<lambda>to body. False) None
        (Some \<lparr>msg_from = js ''5511'', msg_body = JStr (js ''conectar google'')\<rparr>)) = 500"
    using t p T [where b = "JStr (js ''conectar google'')" and auth_url = None] by simp
  have e: "snd (post_webhook_v2 (\<lambda>to body. False)
        (Some (js ''https://bot.example/google/auth?dentist_id=default''))
        (Some \<lparr>msg_from = js ''5511'', msg_body = JStr (js ''conectar google'')\<rparr>)) = 200"
    using t p T [where b = "JStr (js ''conectar google'')"
        and auth_url = "Some (js ''https://bot.example/google/auth?dentist_id=default'')"]
    by simp
  have f: "snd (post_webhook_v2 (\<lambda>to body. False) None
        (Some \<lparr>msg_from = js ''5511'', msg_body = JStr (js ''oi'')\<rparr>)) = 200"
    using t p T [where b = "JStr (js ''oi'')" and auth_url = None] by simp
  show ?thesis
    using a b c d e f by blast
qed

section \<open>The token store\<close>

text \<open>
  C4, as the claim states it, fails on the first server.js: the exchange succeeds and the
  callback answers 200, and no record is kept for the dentist.
\<close>

theorem first_callback_stores_nothing_counterexample:
  "snd (google_callback_v1 (\<lambda>c. Some (js ''token-1'')) Map.empty (JStr (js ''code-1''))) = 200
   \<and> fst (google_callback_v1 (\<lambda>c. Some (js ''token-1'')) Map.empty (JStr (js ''code-1'')))
         (JStr (js ''default''))
       = None"
  by (simp add: google_callback_v1_def)

text \<open>
  C4, amended. In the second server.js the store is written exactly when the request
  carries a code and the exchange of the code succeeds, whatever the calendar listing
  after it does. The record is written under \<open>default\<close> when the request has no
  \<open>state\<close>, the \<open>state\<close> does not parse or it has no truthy \<open>dentistId\<close>, and under the
  \<open>dentistId\<close> of the \<open>state\<close> when that is a string, a number or a boolean; every other
  entry stays as it was. A second successful exchange for the same such dentist id
  replaces the record, and a request without a code or with a failed exchange leaves the
  store as it was. The first server.js never changes the records.
\<close>

theorem credential_written_by_exchange:
  "(\<not> truthy code \<or> getToken code = None \<longrightarrow>
      fst (fst (google_callback_v2 parsed_dentistId getToken calendar_list (store, made)
                  code state)) = store)
   \<and> (truthy code \<and> getToken code = Some tokens
        \<and> (\<not> truthy state \<or> parsed_dentistId state = None
            \<or> (\<exists>d. parsed_dentistId state = Some d \<and> \<not> truthy d)) \<longrightarrow>
        fst (fst (google_callback_v2 parsed_dentistId getToken calendar_list (store, made)
                    code state))
        = store(JStr (js ''default'') \<mapsto> tokens))
   \<and> (truthy code \<and> getToken code = Some tokens
        \<and> truthy state \<and> parsed_dentistId state = Some d \<and> truthy d \<and> \<not> is_object d \<longrightarrow>
        fst (fst (google_callback_v2 parsed_dentistId getToken calendar_list (store, made)
                    code state))
        = store(d \<mapsto> tokens))
   \<and> (truthy code \<and> getToken code = Some tokens
        \<and> truthy code' \<and> getToken' code' = Some tokens'
        \<and> \<not> truthy state \<and> \<not> truthy state' \<longrightarrow>
        fst (fst (google_callback_v2 parsed_dentistId getToken' calendar_list'
                    (fst (google_callback_v2 parsed_dentistId getToken calendar_list
                            (store, made) code state))
                    code' state'))
        = store(JStr (js ''default'') \<mapsto> tokens'))
   \<and> (truthy code \<and> getToken code = Some tokens
        \<and> truthy code' \<and> getToken' code' = Some tokens'
        \<and> truthy state \<and> parsed_dentistId state = Some d
        \<and> truthy state' \<and> parsed_dentistId state' = Some d
        \<and> truthy d \<and> \<not> is_object d \<longrightarrow>
        fst (fst (google_callback_v2 parsed_dentistId getToken' calendar_list'
                    (fst (google_callback_v2 parsed_dentistId getToken calendar_list
                            (store, made) code state))
                    code' state'))
        = store(d \<mapsto> tokens'))
   \<and> fst (google_callback_v1 getToken store code) = store"
proof (intro conjI impI)
  assume "\<not> truthy code \<or> getToken code = None"
  then show "fst (fst (google_callback_v2 parsed_dentistId getToken calendar_list (store, made)
                  code state)) = store"
    by (auto simp: google_callback_v2_def Let_def)
next
  assume "truthy code \<and> getToken code = Some tokens
        \<and> (\<not> truthy state \<or> parsed_dentistId state = None
            \<or> (\<exists>d. parsed_dentistId state = Some d \<and> \<not> truthy d))"
  then show "fst (fst (google_callback_v2 parsed_dentistId getToken calendar_list (store, made)
                    code state))
        = store(JStr (js ''default'') \<mapsto> tokens)"
    by (auto simp: google_callback_v2_def dentist_id_def Let_def)
next
  assume "truthy code \<and> getToken code = Some tokens
        \<and> truthy state \<and> parsed_dentistId state = Some d \<and> truthy d \<and> \<not> is_object d"
  then show "fst (fst (google_callback_v2 parsed_dentistId getToken calendar_list (store, made)
                    code state))
        = store(d \<mapsto> tokens)"
    by (simp add: google_callback_v2_def dentist_id_def Let_def)
next
  assume "truthy code \<and> getToken code = Some tokens
        \<and> truthy code' \<and> getToken' code' = Some tokens'
        \<and> \<not> truthy state \<and> \<not> truthy state'"
  then show "fst (fst (google_callback_v2 parsed_dentistId getToken' calendar_list'
                    (fst (google_callback_v2 parsed_dentistId getToken calendar_list
                            (store, made) code state))
                    code' state'))
        = store(JStr (js ''default'') \<mapsto> tokens')"
    by (simp add: google_callback_v2_def dentist_id_def Let_def)
next
  assume "truthy code \<and> getToken code = Some tokens
        \<and> truthy code' \<and> getToken' code' = Some tokens'
        \<and> truthy state \<and> parsed_dentistId state = Some d
        \<and> truthy state' \<and> parsed_dentistId state' = Some d
        \<and> truthy d \<and> \<not> is_object d"
  then show "fst (fst (google_callback_v2 parsed_dentistId getToken' calendar_list'
                    (fst (google_callback_v2 parsed_dentistId getToken calendar_list
                            (store, made) code state))
                    code' state'))
        = store(d \<mapsto> tokens')"
    by (simp add: google_callback_v2_def dentist_id_def Let_def)
next
  show "fst (google_callback_v1 getToken store code) = store"
    by (simp add: google_callback_v1_def split: option.split)
qed

theorem credential_written_by_exchange_witness:
  "fst (fst (google_callback_v2
        (\<lambda>st. if st = JStr (js ''state-7'') then Some (JStr (js ''clinic-7'')) else None)
        (\<lambda>c. if c = JStr (js ''code-1'') then Some (js ''token-1'') else None)
        (\<lambda>t. False) (Map.empty, 0) (JStr (js ''code-1'')) (JStr (js ''state-7''))))
     = [JStr (js ''clinic-7'') \<mapsto> js ''token-1'']
   \<and> fst (fst (google_callback_v2
        (\<lambda>st. if st = JStr (js ''state-7'') then Some (JStr (js ''clinic-7'')) else None)
        (\<lambda>c. if c = JStr (js ''code-2'') then Some (js ''token-2'') else None)
        (\<lambda>t. True)
        (fst (google_callback_v2
           (\<lambda>st. if st = JStr (js ''state-7'') then Some (JStr (js ''clinic-7'')) else None)
           (\<lambda>c. if c = JStr (js ''code-1'') then Some (js ''token-1'') else None)
           (\<lambda>t. False) (Map.empty, 0) (JStr (js ''code-1'')) (JStr (js ''state-7''))))
        (JStr (js ''code-2'')) (JStr (js ''state-7''))))
     = [JStr (js ''clinic-7'') \<mapsto> js ''token-2'']
   \<and> fst (fst (google_callback_v2
        (\<lambda>st. if st = JStr (js ''state-7'') then Some (JStr (js ''clinic-7'')) else None)
        (\<lambda>c. if c = JStr (js ''code-1'') then Some (js ''token-1'') else None)
        (\<lambda>t. True) ([JStr (js ''clinic-7'') \<mapsto> js ''token-2''], 0) (JStr (js ''code-1''))
        JUndefined))
     = [JStr (js ''clinic-7'') \<mapsto> js ''token-2'', JStr (js ''default'') \<mapsto> js ''token-1'']
   \<and> fst (fst (google_callback_v2
        (\<lambda>st. if st = JStr (js ''state-7'') then Some (JStr (js ''clinic-7'')) else None)
        (\<lambda>c. if c = JStr (js ''code-1'') then Some (js ''token-1'') else None)
        (\<lambda>t. True) ([JStr (js ''clinic-7'') \<mapsto> js ''token-2''], 0) (JStr (js ''code-9''))
        (JStr (js ''state-7''))))
     = [JStr (js ''clinic-7'') \<mapsto> js ''token-2'']
   \<and> fst (google_callback_v1
        (\<lambda>c. if c = JStr (js ''code-1'') then Some (js ''token-1'') else None)
        Map.empty (JStr (js ''code-1'')))
     = Map.empty"
proof -
  have c: "js ''code-1'' \<noteq> []" "js ''code-2'' \<noteq> []" "js ''code-9'' \<noteq> []"
    "js ''state-7'' \<noteq> []" "js ''clinic-7'' \<noteq> []" "js ''code-9'' \<noteq> js ''code-1''"
    by (simp_all add: js_def)
  note T = credential_written_by_exchange [where
      parsed_dentistId = "\<lambda>st. if st = JStr (js ''state-7'') then Some (JStr (js ''clinic-7''))
                           else None"
      and getToken = "\<lambda>c. if c = JStr (js ''code-1'') then Some (js ''token-1'') else None"]
  have a: "fst (fst (google_callback_v2
        (\<lambda>st. if st = JStr (js ''state-7'') then Some (JStr (js ''clinic-7'')) else None)
        (\<lambda>c. if c = JStr (js ''code-1'') then Some (js ''token-1'') else None)
        (\<lambda>t. False) (Map.empty, 0) (JStr (js ''code-1'')) (JStr (js ''state-7''))))
     = [JStr (js ''clinic-7'') \<mapsto> js ''token-1'']"
    using c T [of "JStr (js ''code-1'')" "\<lambda>t. False" Map.empty 0 "JStr (js ''state-7'')"
        "js ''token-1''" "JStr (js ''clinic-7'')"]
    by simp
  have b: "fst (fst (google_callback_v2
        (\<lambda>st. if st = JStr (js ''state-7'') then Some (JStr (js ''clinic-7'')) else None)
        (\<lambda>c. if c = JStr (js ''code-2'') then Some (js ''token-2'') else None)
        (\<lambda>t. True)
        (fst (google_callback_v2
           (\<lambda>st. if st = JStr (js ''state-7'') then Some (JStr (js ''clinic-7'')) else None)
           (\<lambda>c. if c = JStr (js ''code-1'') then Some (js ''token-1'') else None)
           (\<lambda>t. False) (Map.empty, 0) (JStr (js ''code-1'')) (JStr (js ''state-7''))))
        (JStr (js ''code-2'')) (JStr (js ''state-7''))))
     = [JStr (js ''clinic-7'') \<mapsto> js ''token-2'']"
    using c T [of "JStr (js ''code-1'')" "\<lambda>t. False" Map.empty 0 "JStr (js ''state-7'')"
        "js ''token-1''" "JStr (js ''clinic-7'')" "JStr (js ''code-2'')"
        "\<lambda>c. if c = JStr (js ''code-2'') then Some (js ''token-2'') else None"
        "js ''token-2''" "JStr (js ''state-7'')" "\<lambda>t. True"]
    by simp
  have d: "fst (fst (google_callback_v2
        (\<lambda>st. if st = JStr (js ''state-7'') then Some (JStr (js ''clinic-7'')) else None)
        (\<lambda>c. if c = JStr (js ''code-1'') then Some (js ''token-1'') else None)
        (\<lambda>t. True) ([JStr (js ''clinic-7'') \<mapsto> js ''token-2''], 0) (JStr (js ''code-1''))
        JUndefined))
     = [JStr (js ''clinic-7'') \<mapsto> js ''token-2'', JStr (js ''default'') \<mapsto> js ''token-1'']"
    using c T [of "JStr (js ''code-1'')" "\<lambda>t. True"
        "[JStr (js ''clinic-7'') \<mapsto> js ''token-2'']" 0 JUndefined "js ''token-1''"]
    by simp
  have e: "fst (fst (google_callback_v2
        (\<lambda>st. if st = JStr (js ''state-7'') then Some (JStr (js ''clinic-7'')) else None)
        (\<lambda>c. if c = JStr (js ''code-1'') then Some (js ''token-1'') else None)
        (\<lambda>t. True) ([JStr (js ''clinic-7'') \<mapsto> js ''token-2''], 0) (JStr (js ''code-9''))
        (JStr (js ''state-7''))))
     = [JStr (js ''clinic-7'') \<mapsto> js ''token-2'']"
    using c T [of "JStr (js ''code-9'')" "\<lambda>t. True"
        "[JStr (js ''clinic-7'') \<mapsto> js ''token-2'']" 0 "JStr (js ''state-7'')"]
    by simp
  have f: "fst (google_callback_v1
        (\<lambda>c. if c = JStr (js ''code-1'') then Some (js ''token-1'') else None)
        Map.empty (JStr (js ''code-1'')))
     = Map.empty"
    using T by blast
  show ?thesis
    using a b d e f by blast
qed

end
